theory Spec2Isabelle
  imports Main "HOL-Library.Sublist"
begin

section \<open>Text primitives\<close>

text \<open>
  Python strings are modelled as lists of characters whose code points lie in 0..255.
  The predicates below follow \<^verbatim>\<open>str.isspace\<close>, \<^verbatim>\<open>str.lower\<close>,
  \<^verbatim>\<open>str.strip\<close>, \<^verbatim>\<open>str.split\<close> (without argument), \<^verbatim>\<open>str.title\<close>
  and the operator \<^verbatim>\<open>in\<close> on that range.
\<close>

definition cp :: "char \<Rightarrow> nat" where
  "cp c = of_char c"

definition is_space :: "char \<Rightarrow> bool" where
  "is_space c = ((9 \<le> cp c \<and> cp c \<le> 13) \<or> (28 \<le> cp c \<and> cp c \<le> 32) \<or> cp c = 133 \<or> cp c = 160)"

definition is_digit :: "char \<Rightarrow> bool" where
  "is_digit c = (48 \<le> cp c \<and> cp c \<le> 57)"

definition is_ascii_upper :: "char \<Rightarrow> bool" where
  "is_ascii_upper c = (65 \<le> cp c \<and> cp c \<le> 90)"

definition is_ascii_lower :: "char \<Rightarrow> bool" where
  "is_ascii_lower c = (97 \<le> cp c \<and> cp c \<le> 122)"

definition is_upper :: "char \<Rightarrow> bool" where
  "is_upper c = (is_ascii_upper c \<or> (192 \<le> cp c \<and> cp c \<le> 222 \<and> cp c \<noteq> 215))"

definition ascii_lowercase :: string where
  "ascii_lowercase = ''abcdefghijklmnopqrstuvwxyz''"

definition ascii_uppercase :: string where
  "ascii_uppercase = ''ABCDEFGHIJKLMNOPQRSTUVWXYZ''"

definition lower_chr :: "char \<Rightarrow> char" where
  "lower_chr c =
     (if is_ascii_upper c then ascii_lowercase ! (cp c - 65)
      else if is_upper c then char_of (cp c + 32)
      else c)"

definition upper_chr :: "char \<Rightarrow> char" where
  "upper_chr c = (if is_ascii_lower c then ascii_uppercase ! (cp c - 97) else c)"

definition lower :: "string \<Rightarrow> string" where
  "lower s = map lower_chr s"

definition strip :: "string \<Rightarrow> string" where
  "strip s = rev (dropWhile is_space (rev (dropWhile is_space s)))"

text \<open>\<^verbatim>\<open>sub in s\<close>: \<open>sub\<close> occurs in \<open>s\<close> as a contiguous block.\<close>

fun isin :: "string \<Rightarrow> string \<Rightarrow> bool" where
  "isin sub [] = (sub = [])"
| "isin sub (c # cs) = (prefix sub (c # cs) \<or> isin sub cs)"

text \<open>\<^verbatim>\<open>s.split()\<close>: the maximal runs of non-whitespace characters, in order.\<close>

fun split_acc :: "string \<Rightarrow> string \<Rightarrow> string list" where
  "split_acc w [] = (if w = [] then [] else [rev w])"
| "split_acc w (c # cs) =
     (if is_space c then (if w = [] then split_acc [] cs else rev w # split_acc [] cs)
      else split_acc (c # w) cs)"

definition split :: "string \<Rightarrow> string list" where
  "split s = split_acc [] s"

text \<open>\<^verbatim>\<open>sep.join(ws)\<close> with the separator a single blank.\<close>

fun join_sp :: "string list \<Rightarrow> string" where
  "join_sp [] = []"
| "join_sp [w] = w"
| "join_sp (w # v # ws) = w @ '' '' @ join_sp (v # ws)"

text \<open>
  \<^verbatim>\<open>s.title()\<close>: a letter that follows a letter is lower-cased, any other letter is
  upper-cased. In the program the method is only applied to captures of the classes
  \<^verbatim>\<open>[a-zA-Z0-9\s]\<close>, so the letters are the ASCII ones.
\<close>

fun title_from :: "bool \<Rightarrow> string \<Rightarrow> string" where
  "title_from prev [] = []"
| "title_from prev (c # cs) =
     (if is_ascii_lower c then (if prev then c else upper_chr c) # title_from True cs
      else if is_ascii_upper c then (if prev then lower_chr c else c) # title_from True cs
      else c # title_from False cs)"

definition title :: "string \<Rightarrow> string" where
  "title s = title_from False s"

text \<open>\<^verbatim>\<open>s.replace(old, new)\<close> for a non-empty \<open>old\<close>: left to right, non-overlapping.\<close>

fun replace :: "string \<Rightarrow> string \<Rightarrow> string \<Rightarrow> string" where
  "replace old new [] = []"
| "replace old new (c # cs) =
     (if old \<noteq> [] \<and> prefix old (c # cs)
      then new @ replace old new (drop (length old) (c # cs))
      else c # replace old new cs)"

section \<open>The booking record (core/prompt.py)\<close>

text \<open>
  Every data attribute of \<^verbatim>\<open>BookingData\<close> starts as \<^verbatim>\<open>None\<close> and later holds a
  string; \<^verbatim>\<open>confirmation_status\<close> is a string from the start. \<open>extra_attrs\<close> holds
  the further entries of the instance dictionary: what \<^verbatim>\<open>setattr\<close> attaches to the
  instance under a name that is not one of the ten data attributes.
\<close>

record BookingData =
  customer_name :: "string option"
  contact :: "string option"
  lead_source :: "string option"
  pickup_location :: "string option"
  drop_location :: "string option"
  vehicle_type :: "string option"
  body_type :: "string option"
  goods_type :: "string option"
  trip_date :: "string option"
  confirmation_status :: string
  extra_attrs :: "(string \<times> string) list"

definition BookingData_init :: BookingData where
  "BookingData_init =
     \<lparr>customer_name = None, contact = None, lead_source = None, pickup_location = None,
      drop_location = None, vehicle_type = None, body_type = None, goods_type = None,
      trip_date = None, confirmation_status = ''pending'', extra_attrs = []\<rparr>"

text \<open>Truth value of an attribute that is \<^verbatim>\<open>None\<close> or a string.\<close>

fun truthy :: "string option \<Rightarrow> bool" where
  "truthy None = False"
| "truthy (Some s) = (s \<noteq> [])"

text \<open>
  The names in the class namespace of \<^verbatim>\<open>BookingData\<close> (its methods and what the
  class statement adds), and the names of \<^verbatim>\<open>object\<close>, which every instance
  inherits; both as CPython 3.11 lists them.
\<close>

definition class_attrs :: "string list" where
  "class_attrs = [''__module__'', ''__doc__'', ''__init__'', ''update_field'',
     ''get_missing_fields'', ''is_complete'', ''to_dict'', ''__str__'', ''__dict__'',
     ''__weakref__'']"

definition object_attrs :: "string list" where
  "object_attrs = [''__class__'', ''__delattr__'', ''__dir__'', ''__doc__'', ''__eq__'',
     ''__format__'', ''__ge__'', ''__getattribute__'', ''__getstate__'', ''__gt__'',
     ''__hash__'', ''__init__'', ''__init_subclass__'', ''__le__'', ''__lt__'', ''__ne__'',
     ''__new__'', ''__reduce__'', ''__reduce_ex__'', ''__repr__'', ''__setattr__'',
     ''__sizeof__'', ''__str__'', ''__subclasshook__'']"

definition data_attrs :: "string list" where
  "data_attrs = [''customer_name'', ''contact'', ''lead_source'', ''pickup_location'',
     ''drop_location'', ''vehicle_type'', ''body_type'', ''goods_type'', ''trip_date'',
     ''confirmation_status'']"

text \<open>
  \<^verbatim>\<open>hasattr(self, field)\<close>: the name is found in the instance dictionary (a data
  attribute, or an attribute attached later), in the class, or in \<^verbatim>\<open>object\<close>.
\<close>

definition hasattr :: "BookingData \<Rightarrow> string \<Rightarrow> bool" where
  "hasattr bd field =
     (field \<in> set data_attrs \<or> field \<in> fst ` set (extra_attrs bd) \<or>
      field \<in> set class_attrs \<or> field \<in> set object_attrs)"

text \<open>
  The instance dictionary, \<^verbatim>\<open>self.__dict__.get(field)\<close>: \<open>None\<close> when the
  dictionary has no such key, otherwise the stored value (itself \<^verbatim>\<open>None\<close> or a
  string).
\<close>

definition instance_attr :: "BookingData \<Rightarrow> string \<Rightarrow> string option option" where
  "instance_attr bd field =
     (if field = ''customer_name'' then Some (customer_name bd)
      else if field = ''contact'' then Some (contact bd)
      else if field = ''lead_source'' then Some (lead_source bd)
      else if field = ''pickup_location'' then Some (pickup_location bd)
      else if field = ''drop_location'' then Some (drop_location bd)
      else if field = ''vehicle_type'' then Some (vehicle_type bd)
      else if field = ''body_type'' then Some (body_type bd)
      else if field = ''goods_type'' then Some (goods_type bd)
      else if field = ''trip_date'' then Some (trip_date bd)
      else if field = ''confirmation_status'' then Some (Some (confirmation_status bd))
      else map_option Some (map_of (extra_attrs bd) field))"

text \<open>The write of a string into the instance dictionary.\<close>

definition store_attr :: "BookingData \<Rightarrow> string \<Rightarrow> string \<Rightarrow> BookingData" where
  "store_attr bd field v =
     (if field = ''customer_name'' then bd\<lparr>customer_name := Some v\<rparr>
      else if field = ''contact'' then bd\<lparr>contact := Some v\<rparr>
      else if field = ''lead_source'' then bd\<lparr>lead_source := Some v\<rparr>
      else if field = ''pickup_location'' then bd\<lparr>pickup_location := Some v\<rparr>
      else if field = ''drop_location'' then bd\<lparr>drop_location := Some v\<rparr>
      else if field = ''vehicle_type'' then bd\<lparr>vehicle_type := Some v\<rparr>
      else if field = ''body_type'' then bd\<lparr>body_type := Some v\<rparr>
      else if field = ''goods_type'' then bd\<lparr>goods_type := Some v\<rparr>
      else if field = ''trip_date'' then bd\<lparr>trip_date := Some v\<rparr>
      else if field = ''confirmation_status'' then bd\<lparr>confirmation_status := v\<rparr>
      else bd\<lparr>extra_attrs := (field, v) # extra_attrs bd\<rparr>)"

text \<open>
  \<^verbatim>\<open>setattr(self, field, value)\<close> with a string \<open>value\<close>. Three names are data
  descriptors of the type and refuse it: \<^verbatim>\<open>__class__\<close> and \<^verbatim>\<open>__dict__\<close> raise
  \<^verbatim>\<open>TypeError\<close> (a string is neither a class nor a dictionary), \<^verbatim>\<open>__weakref__\<close>
  raises \<^verbatim>\<open>AttributeError\<close> (not writable). Every other name is written into the
  instance dictionary, where it shadows a method or inherited attribute of that name.
\<close>

datatype py_error = TypeError | AttributeError

definition setattr :: "BookingData \<Rightarrow> string \<Rightarrow> string \<Rightarrow> py_error + BookingData" where
  "setattr bd field v =
     (if field = ''__class__'' \<or> field = ''__dict__'' then Inl TypeError
      else if field = ''__weakref__'' then Inl AttributeError
      else Inr (store_attr bd field v))"

definition update_field :: "string \<Rightarrow> string \<Rightarrow> BookingData \<Rightarrow> py_error + BookingData" where
  "update_field field v bd = (if hasattr bd field then setattr bd field v else Inr bd)"

definition is_complete :: "BookingData \<Rightarrow> bool" where
  "is_complete bd =
     (truthy (pickup_location bd) \<and> truthy (drop_location bd) \<and> truthy (vehicle_type bd) \<and>
      truthy (body_type bd) \<and> truthy (goods_type bd) \<and> truthy (trip_date bd))"

section \<open>Confirmation detection (LLMAgent._detect_confirmation)\<close>

definition confirmation_keywords :: "string list" where
  "confirmation_keywords =
     [''yes'', ''yeah'', ''yep'', ''ok'', ''okay'', ''correct'', ''right'', ''sure'',
      ''fine'', ''perfect'', ''that'' @ [CHR 39] @ ''s right'', ''confirmed'', ''done'',
      ''absolutely'', ''exactly'']"

definition rejection_keywords :: "string list" where
  "rejection_keywords =
     [''no'', ''not interested'', ''cancel'', ''don'' @ [CHR 39] @ ''t want'', ''not now'']"

text \<open>\<^verbatim>\<open>any(keyword in text_lower for keyword in keywords)\<close>\<close>

definition any_in :: "string list \<Rightarrow> string \<Rightarrow> bool" where
  "any_in keywords text_lower = list_ex (\<lambda>keyword. isin keyword text_lower) keywords"

definition detect_confirmation :: "string \<Rightarrow> BookingData \<Rightarrow> BookingData" where
  "detect_confirmation text bd =
     (let text_lower = lower text;
          bd1 = (if any_in confirmation_keywords text_lower
                 then (if confirmation_status bd = ''pending''
                       then bd\<lparr>confirmation_status := ''confirmed''\<rparr> else bd)
                 else bd);
          bd2 = (if any_in rejection_keywords text_lower
                 then (if confirmation_status bd1 = ''pending''
                       then bd1\<lparr>confirmation_status := ''not_interested''\<rparr> else bd1)
                 else bd1)
      in bd2)"

section \<open>Trip date (the last block of LLMAgent._extract_booking_info)\<close>

text \<open>
  The clock is a parameter: \<open>now\<close> is the proleptic Gregorian ordinal of the current
  day (\<^verbatim>\<open>datetime.now().toordinal()\<close>), and adding \<^verbatim>\<open>timedelta(days=k)\<close> adds
  \<open>k\<close> to it. \<open>ord2ymd\<close> and \<open>strftime_ymd\<close> follow the standard library's
  conversion of an ordinal to year, month and day and the format \<^verbatim>\<open>%Y-%m-%d\<close>
  for years 1000 to 9999.
\<close>

definition days_before_month :: "nat \<Rightarrow> nat" where
  "days_before_month m = [0, 0, 31, 59, 90, 120, 151, 181, 212, 243, 273, 304, 334] ! m"

definition days_in_month :: "nat \<Rightarrow> nat" where
  "days_in_month m = [0, 31, 28, 31, 30, 31, 30, 31, 31, 30, 31, 30, 31] ! m"

definition ord2ymd :: "nat \<Rightarrow> nat \<times> nat \<times> nat" where
  "ord2ymd ordinal =
     (let n = ordinal - 1;
          n400 = n div 146097; r400 = n mod 146097;
          n100 = r400 div 36524; r100 = r400 mod 36524;
          n4 = r100 div 1461; r4 = r100 mod 1461;
          n1 = r4 div 365; r1 = r4 mod 365;
          year = n400 * 400 + 1 + n100 * 100 + n4 * 4 + n1
      in if n1 = 4 \<or> n100 = 4 then (year - 1, 12, 31)
         else
           (let leapyear = (n1 = 3 \<and> (n4 \<noteq> 24 \<or> n100 = 3));
                month = (r1 + 50) div 32;
                preceding = days_before_month month + (if month > 2 \<and> leapyear then 1 else 0)
            in if preceding > r1
               then (let month' = month - 1;
                         preceding' = preceding -
                           (days_in_month month' + (if month' = 2 \<and> leapyear then 1 else 0))
                     in (year, month', r1 - preceding' + 1))
               else (year, month, r1 - preceding + 1)))"

definition digit_chr :: "nat \<Rightarrow> char" where
  "digit_chr d = ''0123456789'' ! (d mod 10)"

definition pad2 :: "nat \<Rightarrow> string" where
  "pad2 n = [digit_chr (n div 10), digit_chr n]"

definition pad4 :: "nat \<Rightarrow> string" where
  "pad4 n = [digit_chr (n div 1000), digit_chr (n div 100), digit_chr (n div 10), digit_chr n]"

definition strftime_ymd :: "nat \<Rightarrow> string" where
  "strftime_ymd ordinal =
     (case ord2ymd ordinal of (y, m, d) \<Rightarrow> pad4 y @ ''-'' @ pad2 m @ ''-'' @ pad2 d)"

definition extract_trip_date :: "nat \<Rightarrow> string \<Rightarrow> BookingData \<Rightarrow> BookingData" where
  "extract_trip_date now text_lower bd =
     (if \<not> truthy (trip_date bd) then
        (if isin ''today'' text_lower \<or> isin ''now'' text_lower
         then bd\<lparr>trip_date := Some (strftime_ymd now)\<rparr>
         else if isin ''tomorrow'' text_lower
         then bd\<lparr>trip_date := Some (strftime_ymd (now + 1))\<rparr>
         else if isin ''day after tomorrow'' text_lower \<or> isin ''overmorrow'' text_lower
         then bd\<lparr>trip_date := Some (strftime_ymd (now + 2))\<rparr>
         else bd)
      else bd)"

section \<open>Regular expressions (the patterns given to re.search)\<close>

text \<open>
  The patterns of the program use literals, character classes, concatenation,
  alternation, an optional group, the greedy quantifiers \<^verbatim>\<open>*\<close>, \<^verbatim>\<open>+\<close>,
  \<^verbatim>\<open>{n}\<close> and the lazy \<^verbatim>\<open>+?\<close> on a character class, capturing groups,
  \<^verbatim>\<open>$\<close> and \<^verbatim>\<open>\b\<close>. \<open>rx\<close> is a backtracking matcher in continuation-passing
  style: it tries the alternatives in the order of Python's matcher and returns the
  captured groups of the first complete match. A matcher state is the character before
  the current position (for \<^verbatim>\<open>\b\<close>), the rest of the text, and the groups captured so
  far. \<open>is_word\<close> is \<^verbatim>\<open>\w\<close> and \<open>is_space\<close> is \<^verbatim>\<open>\s\<close> for code points below 256.
\<close>

definition is_word :: "char \<Rightarrow> bool" where
  "is_word c = (is_digit c \<or> is_ascii_upper c \<or> is_ascii_lower c \<or> cp c = 95 \<or>
     cp c = 170 \<or> cp c = 178 \<or> cp c = 179 \<or> cp c = 181 \<or> cp c = 185 \<or> cp c = 186 \<or>
     (188 \<le> cp c \<and> cp c \<le> 190) \<or> (192 \<le> cp c \<and> cp c \<noteq> 215 \<and> cp c \<noteq> 247))"

type_synonym mstate = "char option \<times> string \<times> string list"

datatype regex =
    Lit string
  | Cls "char \<Rightarrow> bool"
  | Cat "regex list"
  | Alt "regex list"
  | Opt regex
  | Star "char \<Rightarrow> bool"
  | Plus "char \<Rightarrow> bool"
  | PlusLazy "char \<Rightarrow> bool"
  | Rep nat "char \<Rightarrow> bool"
  | Group regex
  | Eos
  | WordB

fun lazy_from :: "(char \<Rightarrow> bool) \<Rightarrow> (mstate \<Rightarrow> string list option) \<Rightarrow> string list \<Rightarrow> char option \<Rightarrow> string \<Rightarrow> string list option" where
  "lazy_from P k caps p [] = k (p, [], caps)"
| "lazy_from P k caps p (c # cs) =
     (case k (p, c # cs, caps) of
        Some r \<Rightarrow> Some r
      | None \<Rightarrow> if P c then lazy_from P k caps (Some c) cs else None)"

fun greedy_from :: "(char \<Rightarrow> bool) \<Rightarrow> (mstate \<Rightarrow> string list option) \<Rightarrow> string list \<Rightarrow> char option \<Rightarrow> string \<Rightarrow> string list option" where
  "greedy_from P k caps p [] = k (p, [], caps)"
| "greedy_from P k caps p (c # cs) =
     (if P c
      then (case greedy_from P k caps (Some c) cs of
              Some r \<Rightarrow> Some r
            | None \<Rightarrow> k (p, c # cs, caps))
      else k (p, c # cs, caps))"

fun rep_from :: "nat \<Rightarrow> (char \<Rightarrow> bool) \<Rightarrow> (mstate \<Rightarrow> string list option) \<Rightarrow> string list \<Rightarrow> char option \<Rightarrow> string \<Rightarrow> string list option" where
  "rep_from 0 P k caps p s = k (p, s, caps)"
| "rep_from (Suc n) P k caps p [] = None"
| "rep_from (Suc n) P k caps p (c # cs) = (if P c then rep_from n P k caps (Some c) cs else None)"

definition at_boundary :: "char option \<Rightarrow> string \<Rightarrow> bool" where
  "at_boundary p s =
     ((case p of None \<Rightarrow> False | Some c \<Rightarrow> is_word c) \<noteq> (case s of [] \<Rightarrow> False | c # _ \<Rightarrow> is_word c))"

primrec rx :: "regex \<Rightarrow> (mstate \<Rightarrow> string list option) \<Rightarrow> mstate \<Rightarrow> string list option"
  and rx_cat :: "regex list \<Rightarrow> (mstate \<Rightarrow> string list option) \<Rightarrow> mstate \<Rightarrow> string list option"
  and rx_alt :: "regex list \<Rightarrow> (mstate \<Rightarrow> string list option) \<Rightarrow> mstate \<Rightarrow> string list option"
where
  "rx (Lit w) k st =
     (case st of (p, s, caps) \<Rightarrow>
        if prefix w s then k (if w = [] then p else Some (last w), drop (length w) s, caps) else None)"
| "rx (Cls P) k st =
     (case st of (p, s, caps) \<Rightarrow>
        (case s of [] \<Rightarrow> None | c # cs \<Rightarrow> if P c then k (Some c, cs, caps) else None))"
| "rx (Cat rs) k st = rx_cat rs k st"
| "rx (Alt rs) k st = rx_alt rs k st"
| "rx (Opt r) k st = (case rx r k st of Some res \<Rightarrow> Some res | None \<Rightarrow> k st)"
| "rx (Star P) k st = (case st of (p, s, caps) \<Rightarrow> greedy_from P k caps p s)"
| "rx (Plus P) k st =
     (case st of (p, s, caps) \<Rightarrow>
        (case s of [] \<Rightarrow> None | c # cs \<Rightarrow> if P c then greedy_from P k caps (Some c) cs else None))"
| "rx (PlusLazy P) k st =
     (case st of (p, s, caps) \<Rightarrow>
        (case s of [] \<Rightarrow> None | c # cs \<Rightarrow> if P c then lazy_from P k caps (Some c) cs else None))"
| "rx (Rep n P) k st = (case st of (p, s, caps) \<Rightarrow> rep_from n P k caps p s)"
| "rx (Group r) k st =
     rx r (\<lambda>st'. case st' of (p', s', caps') \<Rightarrow>
             k (p', s', caps' @ [take (length (fst (snd st)) - length s') (fst (snd st))])) st"
| "rx Eos k st = (if fst (snd st) = [] \<or> fst (snd st) = [CHR 10] then k st else None)"
| "rx WordB k st = (if at_boundary (fst st) (fst (snd st)) then k st else None)"
| "rx_cat [] k st = k st"
| "rx_cat (r # rs) k st = rx r (\<lambda>st'. rx_cat rs k st') st"
| "rx_alt [] k st = None"
| "rx_alt (r # rs) k st = (case rx r k st of Some res \<Rightarrow> Some res | None \<Rightarrow> rx_alt rs k st)"

fun search_from :: "regex \<Rightarrow> char option \<Rightarrow> string \<Rightarrow> string list option" where
  "search_from r p [] = rx r (\<lambda>(p', s', caps). Some caps) (p, [], [])"
| "search_from r p (c # cs) =
     (case rx r (\<lambda>(p', s', caps). Some caps) (p, c # cs, []) of
        Some caps \<Rightarrow> Some caps
      | None \<Rightarrow> search_from r (Some c) cs)"

definition re_search :: "regex \<Rightarrow> string \<Rightarrow> string list option" where
  "re_search r s = search_from r None s"

text \<open>
  In every pattern below the groups stand outside alternatives and optional parts, so
  a match yields its groups in order: \<open>Some [g1]\<close>, \<open>Some [g1, g2]\<close> and so on.
\<close>

subsection \<open>The patterns of LLMAgent\<close>

definition alpha_space :: "char \<Rightarrow> bool" where
  "alpha_space c = (is_ascii_lower c \<or> is_ascii_upper c \<or> is_space c)"
definition alnum_space :: "char \<Rightarrow> bool" where
  "alnum_space c = (is_ascii_lower c \<or> is_ascii_upper c \<or> is_digit c \<or> is_space c)"
definition digit_6_9 :: "char \<Rightarrow> bool" where
  "digit_6_9 c = (54 \<le> cp c \<and> cp c \<le> 57)"
definition space_dash :: "char \<Rightarrow> bool" where
  "space_dash c = (is_space c \<or> c = CHR ''-'')"
definition space_colon :: "char \<Rightarrow> bool" where
  "space_colon c = (is_space c \<or> c = CHR '':'')"

definition name_end :: regex where
  "name_end = Alt [Cat [Plus is_space, Lit ''and''], Cat [Plus is_space, Lit ''my''], Lit ''.'', Lit '','', Eos]"

definition name_pattern1 :: regex where
  "name_pattern1 = Cat [Alt [Lit ''my name is'', Lit ''i am'', Lit ''this is'', Lit ''name is'', Lit (''i'' @ [CHR 39] @ ''m'')],
     Plus is_space, Group (PlusLazy alpha_space), name_end]"

definition name_pattern2 :: regex where
  "name_pattern2 = Cat [Lit ''name'', Plus is_space, Group (PlusLazy alpha_space), name_end]"

definition conf_name_pattern :: regex where
  "conf_name_pattern = Cat [Lit ''name'', Plus is_space, Group (PlusLazy alpha_space),
     Alt [Lit '','', Cat [Plus is_space, Lit ''mobile'']]]"

definition conf_phone_pattern1 :: regex where
  "conf_phone_pattern1 = Cat [Lit ''mobile'', Plus is_space, Group (Cat [Cls digit_6_9, Rep 9 is_digit])]"
definition conf_phone_pattern2 :: regex where
  "conf_phone_pattern2 = Cat [Lit ''mobile'', Plus is_space, Lit ''('', Group (Rep 3 is_digit), Lit '')'',
     Star is_space, Group (Rep 3 is_digit), Lit ''-'', Group (Rep 4 is_digit)]"
definition conf_phone_pattern3 :: regex where
  "conf_phone_pattern3 = Cat [Lit ''number'', Plus is_space, Group (Cat [Cls digit_6_9, Rep 9 is_digit])]"

definition phone_pattern1 :: regex where
  "phone_pattern1 = Cat [WordB, Group (Cat [Cls digit_6_9, Rep 9 is_digit]), WordB]"
definition phone_pattern2 :: regex where
  "phone_pattern2 = Cat [WordB, Group (Cat [Cls digit_6_9, Cls is_digit, Opt (Cls space_dash),
      Rep 3 is_digit, Opt (Cls space_dash), Rep 5 is_digit]), WordB]"
definition phone_pattern3 :: regex where
  "phone_pattern3 = Cat [Alt [Lit ''number'', Lit ''mobile'', Lit ''phone'', Lit ''contact''],
      Plus space_colon, Group (Cat [Cls digit_6_9, Rep 9 is_digit])]"

definition from_to_pattern :: regex where
  "from_to_pattern = Cat [Alt [Lit ''from'', Lit ''pickup'', Lit ''trip from''], Plus is_space,
     Group (PlusLazy alpha_space), Plus is_space, Alt [Lit ''to'', Lit ''drop''], Plus is_space,
     Group (PlusLazy alpha_space),
     Alt [Cls is_space, Lit '','', Eos, Lit ''.'', Cat [WordB, Lit ''and'', WordB]]]"

definition confirmation_pattern :: regex where
  "confirmation_pattern = Cat [Lit ''pickup'', Plus is_space, Opt (Cat [Lit ''in'', Plus is_space]),
     Group (PlusLazy alpha_space), Lit '','', Star is_space, Lit ''drop'', Plus is_space,
     Opt (Cat [Lit ''in'', Plus is_space]), Group (PlusLazy alpha_space),
     Alt [Lit '','', Lit ''truck'', Cat [Plus is_space, Lit ''truck''], Lit ''.'', Eos]]"

definition truck_type_pattern :: regex where
  "truck_type_pattern = Cat [Lit ''truck'', Plus is_space, Opt (Cat [Lit ''type'', Plus is_space]),
     Group (PlusLazy alnum_space),
     Alt [Lit '','', Lit ''body'', Cat [Plus is_space, Lit ''open''],
          Cat [Plus is_space, Lit ''container''], Lit ''.'', Eos]]"

definition feet_pattern :: regex where
  "feet_pattern = Cat [Group (Plus is_digit), Star is_space, Alt [Lit ''feet'', Lit ''ft'', Lit ''foot'']]"

definition material_end :: regex where
  "material_end = Alt [Cat [Plus is_space, Lit ''from''], Cat [Plus is_space, Lit ''to''], Lit '','', Lit ''.'', Eos]"

definition material_pattern1 :: regex where
  "material_pattern1 = Cat [Lit ''carrying'', Plus is_space, Group (PlusLazy alnum_space), material_end]"
definition material_pattern2 :: regex where
  "material_pattern2 = Cat [Lit ''transporting'', Plus is_space, Group (PlusLazy alnum_space), material_end]"
definition material_pattern3 :: regex where
  "material_pattern3 = Cat [Lit ''moving'', Plus is_space, Group (PlusLazy alnum_space), material_end]"
definition material_pattern4 :: regex where
  "material_pattern4 = Cat [Lit ''material'', Plus is_space, Opt (Cat [Lit ''is'', Plus is_space]),
     Group (PlusLazy alnum_space), material_end]"
definition material_pattern5 :: regex where
  "material_pattern5 = Cat [Lit ''goods'', Plus is_space, Opt (Cat [Lit ''is'', Plus is_space]),
     Group (PlusLazy alnum_space), material_end]"
definition material_pattern6 :: regex where
  "material_pattern6 = Cat [Lit ''load'', Plus is_space, Opt (Cat [Lit ''is'', Plus is_space]),
     Group (PlusLazy alnum_space), material_end]"
definition conf_material_pattern :: regex where
  "conf_material_pattern = Cat [Lit ''material'', Plus is_space, Group (PlusLazy alnum_space),
     Alt [Lit '','', Lit ''date'', Lit ''.'', Eos]]"

section \<open>Field extraction (LLMAgent._extract_booking_info)\<close>

subsection \<open>Customer name\<close>

definition stop_words :: "string list" where
  "stop_words = [''is'', ''and'', ''my'', ''the'', ''from'', ''to'', ''for'', ''i'', ''said'',
     ''please'', ''you'', ''your'']"

definition name_cities :: "string list" where
  "name_cities = [''chennai'', ''bangalore'', ''mumbai'', ''delhi'', ''pune'', ''hyderabad'']"

fun name_loop :: "regex list \<Rightarrow> string \<Rightarrow> BookingData \<Rightarrow> BookingData" where
  "name_loop [] text_lower bd = bd"
| "name_loop (pattern # patterns) text_lower bd =
     (case re_search pattern text_lower of
        Some (g # _) \<Rightarrow>
          (let name = title (strip g);
               name_parts = filter (\<lambda>word. lower word \<notin> set stop_words) (split name)
           in if name_parts \<noteq> [] \<and> length (join_sp name_parts) \<ge> 2
              then (let clean_name = join_sp name_parts
                    in if lower clean_name \<notin> set name_cities
                       then bd\<lparr>customer_name := Some clean_name\<rparr>
                       else name_loop patterns text_lower bd)
              else name_loop patterns text_lower bd)
      | _ \<Rightarrow> name_loop patterns text_lower bd)"

definition extract_name :: "string \<Rightarrow> BookingData \<Rightarrow> BookingData" where
  "extract_name text_lower bd =
     (if \<not> truthy (customer_name bd)
      then name_loop [name_pattern1, name_pattern2] text_lower bd
      else bd)"

subsection \<open>Phone number\<close>

definition word_to_num :: "(string \<times> string) list" where
  "word_to_num = [(''zero'', ''0''), (''one'', ''1''), (''two'', ''2''), (''three'', ''3''),
     (''four'', ''4''), (''five'', ''5''), (''six'', ''6''), (''seven'', ''7''),
     (''eight'', ''8''), (''nine'', ''9''), (''double'', []), (''triple'', [])]"

text \<open>
  The \<^verbatim>\<open>while\<close> loop of \<^verbatim>\<open>words_to_digits\<close> over the words from index \<open>i\<close>
  on: a word of the table appends its digit; \<^verbatim>\<open>double\<close> or \<^verbatim>\<open>triple\<close> followed
  by a word of the table appends that word's digit two or three times and skips it.
\<close>

fun digits_loop :: "string list \<Rightarrow> string" where
  "digits_loop [] = []"
| "digits_loop [word] = (case map_of word_to_num word of Some digit \<Rightarrow> digit | None \<Rightarrow> [])"
| "digits_loop (word # next # words) =
     (case map_of word_to_num word of
        None \<Rightarrow> digits_loop (next # words)
      | Some digit \<Rightarrow>
          (case map_of word_to_num next of
             Some d \<Rightarrow>
               if word = ''double'' then d @ d @ digits_loop words
               else if word = ''triple'' then d @ d @ d @ digits_loop words
               else digit @ digits_loop (next # words)
           | None \<Rightarrow> digit @ digits_loop (next # words)))"

definition words_to_digits :: "string \<Rightarrow> string" where
  "words_to_digits text_str = digits_loop (split (lower text_str))"

fun phone_loop :: "regex list \<Rightarrow> string \<Rightarrow> BookingData \<Rightarrow> BookingData" where
  "phone_loop [] text bd = bd"
| "phone_loop (pattern # patterns) text bd =
     (case re_search pattern text of
        Some (g # _) \<Rightarrow>
          (let phone = replace ''-'' [] (replace '' '' [] g)
           in if length phone = 10 then bd\<lparr>contact := Some phone\<rparr>
              else phone_loop patterns text bd)
      | _ \<Rightarrow> phone_loop patterns text bd)"

definition extract_phone :: "string \<Rightarrow> BookingData \<Rightarrow> BookingData" where
  "extract_phone text bd =
     (if \<not> truthy (contact bd) then
        (let spoken_number = words_to_digits text
         in if spoken_number \<noteq> [] \<and> length spoken_number = 10 \<and>
               hd spoken_number \<in> set ''6789''
            then bd\<lparr>contact := Some spoken_number\<rparr>
            else phone_loop [phone_pattern1, phone_pattern2, phone_pattern3] text bd)
      else bd)"

subsection \<open>Pickup and drop locations\<close>

text \<open>\<^verbatim>\<open>len(x or "")\<close> for an attribute that is \<^verbatim>\<open>None\<close> or a string.\<close>

definition len_or_empty :: "string option \<Rightarrow> nat" where
  "len_or_empty x = (case x of None \<Rightarrow> 0 | Some v \<Rightarrow> length v)"

definition extract_from_to :: "string \<Rightarrow> BookingData \<Rightarrow> BookingData" where
  "extract_from_to text_lower bd =
     (case re_search from_to_pattern text_lower of
        Some (g1 # g2 # _) \<Rightarrow>
          (let pickup = title (strip g1);
               drop_v = title (strip g2);
               bd1 = (if \<not> truthy (pickup_location bd) \<or>
                         length pickup > len_or_empty (pickup_location bd)
                      then bd\<lparr>pickup_location := Some pickup\<rparr> else bd);
               bd2 = (if \<not> truthy (drop_location bd1) \<or>
                         length drop_v > len_or_empty (drop_location bd1)
                      then bd1\<lparr>drop_location := Some drop_v\<rparr> else bd1)
           in bd2)
      | _ \<Rightarrow> bd)"

text \<open>
  One round of the prefix clean-up: a capture whose lower-cased text starts with the
  prefix loses it and is title-cased again.
\<close>

definition cut_prefix :: "string \<Rightarrow> string \<Rightarrow> string" where
  "cut_prefix pre v = (if prefix pre (lower v) then title (drop (length pre) v) else v)"

definition extract_confirmation_locations :: "string \<Rightarrow> BookingData \<Rightarrow> BookingData" where
  "extract_confirmation_locations text_lower bd =
     (case re_search confirmation_pattern text_lower of
        Some (g1 # g2 # _) \<Rightarrow>
          (let (pickup, drop_v) =
                 fold (\<lambda>pre (pickup, drop_v). (cut_prefix pre pickup, cut_prefix pre drop_v))
                   [''in '', ''from '', ''at ''] (title (strip g1), title (strip g2));
               bd1 = (if pickup \<noteq> [] \<and> length pickup > 2
                      then bd\<lparr>pickup_location := Some pickup\<rparr> else bd);
               bd2 = (if drop_v \<noteq> [] \<and> length drop_v > 2
                      then bd1\<lparr>drop_location := Some drop_v\<rparr> else bd1)
           in bd2)
      | _ \<Rightarrow> bd)"

subsection \<open>Body type\<close>

text \<open>
  A Python dict keeps its keys in insertion order; assigning to a key that is present
  replaces its value in place.
\<close>

fun dict_set :: "'k \<Rightarrow> 'v \<Rightarrow> ('k \<times> 'v) list \<Rightarrow> ('k \<times> 'v) list" where
  "dict_set k v [] = [(k, v)]"
| "dict_set k v ((k', v') # d) = (if k' = k then (k, v) # d else (k', v') # dict_set k v d)"

text \<open>
  \<open>db_bodies\<close> are the names that \<^verbatim>\<open>DBClient().get_body_types()\<close> returns, the empty
  list when the database cannot be reached.
\<close>

definition local_body_types :: "string list \<Rightarrow> (string \<times> string) list" where
  "local_body_types db_bodies =
     fold (\<lambda>name d. dict_set (lower name) name d) db_bodies
       [(''open'', ''Open''), (''container'', ''Container'')]"

fun body_loop :: "(string \<times> string) list \<Rightarrow> string \<Rightarrow> BookingData \<Rightarrow> BookingData" where
  "body_loop [] text_lower bd = bd"
| "body_loop ((keyword, name) # items) text_lower bd =
     (if isin keyword text_lower then bd\<lparr>body_type := Some name\<rparr>
      else body_loop items text_lower bd)"

definition extract_body_type :: "string list \<Rightarrow> string \<Rightarrow> BookingData \<Rightarrow> BookingData" where
  "extract_body_type db_bodies text_lower bd =
     (if body_type bd = None then body_loop (local_body_types db_bodies) text_lower bd else bd)"


subsection \<open>Vehicle type\<close>

text \<open>
  The two scorers \<^verbatim>\<open>fuzz.partial_ratio\<close> and \<^verbatim>\<open>fuzz.ratio\<close> belong to the library
  fuzzywuzzy; the extraction takes them as parameters \<open>partial_ratio\<close> and \<open>ratio\<close>.
  The keyword table \<^verbatim>\<open>self.vehicle_keywords\<close> is an association list in insertion
  order.
\<close>

text \<open>
  The phrases of the double loop over \<open>i\<close> and \<open>j\<close>:
  \<^verbatim>\<open>" ".join(words[i:j])\<close> for \<open>j\<close> from \<open>i + 1\<close> to \<open>min(i + 5, len(words) + 1) - 1\<close>.
\<close>

definition phrases :: "string list \<Rightarrow> string list" where
  "phrases words =
     concat (map (\<lambda>i. map (\<lambda>j. join_sp (take (j - i) (drop i words)))
                           [i + 1 ..< min (i + 5) (length words + 1)])
                 [0 ..< length words])"

text \<open>
  The state of the fuzzy search is \<open>(best_match, best_score, best_vehicle)\<close>. The loop
  body assigns \<open>best_score\<close> and \<open>best_match\<close> only.
\<close>

type_synonym fuzzy_state = "string option \<times> int \<times> string option"

definition fuzzy_keywords_loop ::
  "(string \<Rightarrow> string \<Rightarrow> int) \<Rightarrow> string \<Rightarrow> (string \<times> string) list \<Rightarrow> fuzzy_state \<Rightarrow> fuzzy_state" where
  "fuzzy_keywords_loop partial_ratio phrase vehicle_keywords st =
     fold (\<lambda>(keyword, vehicle_name) (best_match, best_score, best_vehicle).
             (let score = partial_ratio phrase keyword
              in if score > best_score \<and> score \<ge> 85
                 then (Some keyword, score, best_vehicle)
                 else (best_match, best_score, best_vehicle)))
          vehicle_keywords st"

definition fuzzy_phrases_loop ::
  "(string \<Rightarrow> string \<Rightarrow> int) \<Rightarrow> (string \<times> string) list \<Rightarrow> string list \<Rightarrow> fuzzy_state" where
  "fuzzy_phrases_loop partial_ratio vehicle_keywords words =
     fold (\<lambda>phrase st.
             if length phrase < 3 \<and> phrase \<notin> set [''ac'', ''407''] then st
             else fuzzy_keywords_loop partial_ratio phrase vehicle_keywords st)
          (phrases words) (None, 0, None)"

definition extract_vehicle_fuzzy ::
  "(string \<Rightarrow> string \<Rightarrow> int) \<Rightarrow> (string \<times> string) list \<Rightarrow> string \<Rightarrow> BookingData \<Rightarrow> BookingData" where
  "extract_vehicle_fuzzy partial_ratio vehicle_keywords text_lower bd =
     (if \<not> truthy (vehicle_type bd) then
        (case fuzzy_phrases_loop partial_ratio vehicle_keywords (split text_lower) of
           (best_match, best_score, best_vehicle) \<Rightarrow>
             if truthy best_vehicle \<and> best_score \<ge> 85
             then bd\<lparr>vehicle_type := best_vehicle\<rparr>
             else bd)
      else bd)"

definition truck_type_keywords_loop ::
  "(string \<Rightarrow> string \<Rightarrow> int) \<Rightarrow> string \<Rightarrow> (string \<times> string) list \<Rightarrow> int \<times> string option" where
  "truck_type_keywords_loop ratio truck_mentioned vehicle_keywords =
     fold (\<lambda>(keyword, vehicle_name) (best_score, best_vehicle).
             (let score = ratio (lower truck_mentioned) keyword
              in if score > best_score \<and> score \<ge> 65
                 then (score, Some vehicle_name)
                 else (best_score, best_vehicle)))
          vehicle_keywords (0, None)"

definition extract_vehicle_truck_type ::
  "(string \<Rightarrow> string \<Rightarrow> int) \<Rightarrow> (string \<times> string) list \<Rightarrow> string \<Rightarrow> BookingData \<Rightarrow> BookingData" where
  "extract_vehicle_truck_type ratio vehicle_keywords text_lower bd =
     (case re_search truck_type_pattern text_lower of
        Some (g # _) \<Rightarrow>
          (let truck_mentioned = strip g
           in case truck_type_keywords_loop ratio truck_mentioned vehicle_keywords of
                (best_score, best_vehicle) \<Rightarrow>
                  if truthy best_vehicle then bd\<lparr>vehicle_type := best_vehicle\<rparr> else bd)
      | _ \<Rightarrow> bd)"

definition extract_vehicle_fallback :: "string \<Rightarrow> BookingData \<Rightarrow> BookingData" where
  "extract_vehicle_fallback text_lower bd =
     (if \<not> truthy (vehicle_type bd) then
        (case re_search feet_pattern text_lower of
           Some (feet # _) \<Rightarrow> bd\<lparr>vehicle_type := Some (feet @ '' Feet'')\<rparr>
         | _ \<Rightarrow>
             if isin ''truck'' text_lower then bd\<lparr>vehicle_type := Some ''Truck''\<rparr> else bd)
      else bd)"

subsection \<open>Goods\<close>

fun goods_loop :: "regex list \<Rightarrow> string \<Rightarrow> BookingData \<Rightarrow> BookingData" where
  "goods_loop [] text_lower bd = bd"
| "goods_loop (pattern # patterns) text_lower bd =
     (case re_search pattern text_lower of
        Some (g # _) \<Rightarrow>
          (let material = replace '' And '' '' and '' (title (strip g))
           in if length material > 2 then bd\<lparr>goods_type := Some material\<rparr>
              else goods_loop patterns text_lower bd)
      | _ \<Rightarrow> goods_loop patterns text_lower bd)"

definition extract_goods :: "string \<Rightarrow> BookingData \<Rightarrow> BookingData" where
  "extract_goods text_lower bd =
     (if \<not> truthy (goods_type bd)
      then goods_loop [material_pattern1, material_pattern2, material_pattern3,
             material_pattern4, material_pattern5, material_pattern6] text_lower bd
      else bd)"

definition extract_conf_material :: "string \<Rightarrow> BookingData \<Rightarrow> BookingData" where
  "extract_conf_material text_lower bd =
     (if \<not> truthy (goods_type bd) then
        (case re_search conf_material_pattern text_lower of
           Some (g # _) \<Rightarrow>
             (let material = title (strip g)
              in if length material > 2 then bd\<lparr>goods_type := Some material\<rparr> else bd)
         | _ \<Rightarrow> bd)
      else bd)"

subsection \<open>The whole extraction\<close>

text \<open>
  What the extraction reads from outside the agent: the clock, the body types of the
  database, the two scorers, and the completion service (\<open>None\<close> when the call raises).
\<close>

record message =
  role :: string
  content :: string

record env =
  now :: nat
  db_bodies :: "string list"
  partial_ratio :: "string \<Rightarrow> string \<Rightarrow> int"
  ratio :: "string \<Rightarrow> string \<Rightarrow> int"
  call_openai :: "message list \<Rightarrow> string option"

definition extract_booking_info ::
  "env \<Rightarrow> (string \<times> string) list \<Rightarrow> string \<Rightarrow> BookingData \<Rightarrow> BookingData" where
  "extract_booking_info e vehicle_keywords text bd =
     (let text_lower = lower text;
          bd = extract_name text_lower bd;
          bd = extract_phone text bd;
          bd = extract_from_to text_lower bd;
          bd = extract_confirmation_locations text_lower bd;
          bd = extract_body_type (db_bodies e) text_lower bd;
          bd = extract_vehicle_fuzzy (partial_ratio e) vehicle_keywords text_lower bd;
          bd = extract_vehicle_truck_type (ratio e) vehicle_keywords text_lower bd;
          bd = extract_vehicle_fallback text_lower bd;
          bd = extract_goods text_lower bd;
          bd = extract_conf_material text_lower bd;
          bd = extract_trip_date (now e) text_lower bd
      in bd)"

section \<open>Extraction from the assistant's confirmation (LLMAgent._extract_from_confirmation)\<close>

definition conf_cities :: "string list" where
  "conf_cities = [''chennai'', ''bangalore'', ''mumbai'', ''delhi'', ''pune'', ''hyderabad'',
     ''goa'', ''kolkata'']"

definition extract_conf_name :: "string \<Rightarrow> BookingData \<Rightarrow> BookingData" where
  "extract_conf_name text_lower bd =
     (if \<not> truthy (customer_name bd) then
        (case re_search conf_name_pattern text_lower of
           Some (g # _) \<Rightarrow>
             (let name = title (strip g)
              in if lower name \<notin> set conf_cities then bd\<lparr>customer_name := Some name\<rparr>
                 else bd)
         | _ \<Rightarrow> bd)
      else bd)"

fun conf_phone_loop :: "regex list \<Rightarrow> string \<Rightarrow> BookingData \<Rightarrow> BookingData" where
  "conf_phone_loop [] text_lower bd = bd"
| "conf_phone_loop (pattern # patterns) text_lower bd =
     (case re_search pattern text_lower of
        Some groups \<Rightarrow>
          (let phone = (case groups of [g] \<Rightarrow> g | _ \<Rightarrow> concat groups)
           in if length phone = 10 then bd\<lparr>contact := Some phone\<rparr>
              else conf_phone_loop patterns text_lower bd)
      | None \<Rightarrow> conf_phone_loop patterns text_lower bd)"

definition extract_conf_phone :: "string \<Rightarrow> BookingData \<Rightarrow> BookingData" where
  "extract_conf_phone text_lower bd =
     (if \<not> truthy (contact bd)
      then conf_phone_loop [conf_phone_pattern1, conf_phone_pattern2, conf_phone_pattern3]
             text_lower bd
      else bd)"

definition extract_from_confirmation :: "string \<Rightarrow> BookingData \<Rightarrow> BookingData" where
  "extract_from_confirmation text bd =
     (let text_lower = lower text;
          bd = extract_conf_name text_lower bd;
          bd = extract_conf_phone text_lower bd
      in bd)"

section \<open>The agent (LLMAgent)\<close>

definition default_vehicle_keywords :: "(string \<times> string) list" where
  "default_vehicle_keywords =
     [(''tata ace'', ''Tata Ace''), (''tata ac'', ''Tata Ace''), (''ace'', ''Tata Ace''),
      (''dost'', ''Dost''), (''bada dost'', ''Bada Dost''), (''bolero'', ''Bolero''),
      (''bolero pickup'', ''Bolero''), (''407'', ''407''), (''eicher'', ''Eicher''),
      (''ashok leyland'', ''Ashok Leyland''),
      (''12 feet'', ''12 Feet''), (''14 feet'', ''14 Feet''), (''17 feet'', ''17 Feet''),
      (''19 feet'', ''19 Feet''), (''20 feet'', ''20 Feet''), (''22 feet'', ''22 Feet''),
      (''24 feet'', ''24 Feet''), (''32 feet'', ''32 Feet Multi-Axle''),
      (''32 feet multi-axle'', ''32 Feet Multi-Axle''),
      (''32 feet multi axle'', ''32 Feet Multi-Axle''),
      (''trailer'', ''Trailer''), (''20 feet trailer'', ''20 Feet Trailer''),
      (''24 feet trailer'', ''24 Feet Trailer''), (''40 feet trailer'', ''40 Feet Trailer''),
      (''low-bed'', ''Low-Bed Trailer''), (''low bed'', ''Low-Bed Trailer''),
      (''semi-bed'', ''Semi-Bed Trailer''), (''semi bed'', ''Semi-Bed Trailer''),
      (''high-bed'', ''High-Bed Trailer''), (''high bed'', ''High-Bed Trailer''),
      (''6-wheel'', ''6-Wheel Truck''), (''6 wheel'', ''6-Wheel Truck''),
      (''10-wheel'', ''10-Wheel Truck''), (''10 wheel'', ''10-Wheel Truck''),
      (''12-wheel'', ''12-Wheel Truck''), (''12 wheel'', ''12-Wheel Truck''),
      (''14-wheel'', ''14-Wheel Truck''), (''14 wheel'', ''14-Wheel Truck''),
      (''16-wheel'', ''16-Wheel Truck''), (''16 wheel'', ''16-Wheel Truck''),
      (''car-carrier'', ''Car-Carrier''), (''car carrier'', ''Car-Carrier''),
      (''part-load'', ''Part-Load''), (''part load'', ''Part-Load'')]"

record LLMAgent =
  api_key :: "string option"
  conversation_history :: "message list"
  booking_data :: BookingData
  vehicle_keywords :: "(string \<times> string) list"
  body_types :: "(string \<times> string) list"

text \<open>
  The constructor. \<open>key\<close> is the key after \<^verbatim>\<open>api_key or os.getenv(...)\<close>;
  \<open>truck_names\<close> and \<open>body_names\<close> are the names the database returns for
  \<^verbatim>\<open>db_trucks\<close> and \<^verbatim>\<open>db_bodies\<close> (empty when it cannot be reached); \<open>system_prompt\<close> is the constant \<^verbatim>\<open>SYSTEM_PROMPT\<close>.
\<close>

definition LLMAgent_init ::
  "string \<Rightarrow> string option \<Rightarrow> string list \<Rightarrow> string list \<Rightarrow> LLMAgent" where
  "LLMAgent_init system_prompt key truck_names body_names =
     \<lparr>api_key = key,
      conversation_history =
        (if truthy key then [\<lparr>role = ''system'', content = system_prompt\<rparr>] else []),
      booking_data = BookingData_init,
      vehicle_keywords =
        fold (\<lambda>name d. dict_set (replace ''-'' '' '' (lower name)) name
                          (dict_set (lower name) name d))
             truck_names default_vehicle_keywords,
      body_types =
        fold (\<lambda>name d. dict_set (lower name) name d) body_names
          [(''open'', ''Open''), (''container'', ''Container'')]\<rparr>"

text \<open>
  \<^verbatim>\<open>xs[-k:]\<close>: the last \<open>k\<close> elements, and the whole list when \<open>k\<close> is 0 (the
  slice then starts at index 0).
\<close>

definition last_n :: "nat \<Rightarrow> 'a list \<Rightarrow> 'a list" where
  "last_n k xs = (if k = 0 then xs else drop (length xs - k) xs)"

definition get_recent_messages :: "nat \<Rightarrow> LLMAgent \<Rightarrow> message list" where
  "get_recent_messages max_exchanges agent =
     (let system_messages = filter (\<lambda>msg. role msg = ''system'') (conversation_history agent);
          other_messages = filter (\<lambda>msg. role msg \<noteq> ''system'') (conversation_history agent);
          recent_other = last_n (max_exchanges * 2) other_messages
      in system_messages @ recent_other)"

definition check_booking_confirmed_marker :: "string \<Rightarrow> bool" where
  "check_booking_confirmed_marker response_text = isin ''BOOKING_CONFIRMED'' response_text"

definition reprompt :: string where
  "reprompt = ''I didn'' @ [CHR 39] @ ''t catch that. Could you please repeat?''"

definition error_response :: string where
  "error_response =
     ''I'' @ [CHR 39] @ ''m having trouble processing that right now. Could you try again?''"

text \<open>The history after the user's message is appended: what the window is cut from.\<close>

definition with_user_message :: "string \<Rightarrow> LLMAgent \<Rightarrow> LLMAgent" where
  "with_user_message user_text agent =
     agent\<lparr>conversation_history :=
             conversation_history agent @ [\<lparr>role = ''user'', content = user_text\<rparr>]\<rparr>"

text \<open>
  \<open>generate_response\<close>, with what it hands to the completion service made visible:
  the first component lists the arguments of the calls of \<^verbatim>\<open>_call_openai\<close> made during
  the call (none for a blank utterance and in echo mode, otherwise the one window
  \<^verbatim>\<open>recent_messages\<close>), the second is the returned text, the third the agent afterwards.
\<close>

definition generate_response_io ::
  "env \<Rightarrow> string \<Rightarrow> LLMAgent \<Rightarrow> message list list \<times> string \<times> LLMAgent" where
  "generate_response_io e user_text agent =
     (if user_text = [] \<or> strip user_text = [] then ([], reprompt, agent)
      else
        (let a1 = agent\<lparr>booking_data :=
                    detect_confirmation user_text
                      (extract_booking_info e (vehicle_keywords agent) user_text
                         (booking_data agent))\<rparr>
         in if \<not> truthy (api_key a1) then ([], ''[Echo Mode] You said: '' @ user_text, a1)
            else
              (let a2 = with_user_message user_text a1;
                   recent_messages = get_recent_messages 10 a2
               in case call_openai e recent_messages of
                    None \<Rightarrow> ([recent_messages], error_response, a2)
                  | Some response_text \<Rightarrow>
                      (let bd3 = extract_from_confirmation response_text
                                   (extract_booking_info e (vehicle_keywords a2) response_text
                                      (booking_data a2));
                           bd4 = (if check_booking_confirmed_marker response_text
                                  then bd3\<lparr>confirmation_status := ''confirmed''\<rparr>
                                  else bd3)
                       in ([recent_messages], response_text,
                           a2\<lparr>booking_data := bd4,
                              conversation_history :=
                                conversation_history a2 @
                                  [\<lparr>role = ''assistant'', content = response_text\<rparr>]\<rparr>)))))"

text \<open>The call as its caller sees it: the returned text and the agent afterwards.\<close>

definition generate_response :: "env \<Rightarrow> string \<Rightarrow> LLMAgent \<Rightarrow> string \<times> LLMAgent" where
  "generate_response e user_text agent = snd (generate_response_io e user_text agent)"

text \<open>A conversation: the calls of \<open>generate_response\<close> one after the other, each with
  what the outside world answers during that call.\<close>

fun run :: "(env \<times> string) list \<Rightarrow> LLMAgent \<Rightarrow> LLMAgent" where
  "run [] agent = agent"
| "run ((e, user_text) # calls) agent = run calls (snd (generate_response e user_text agent))"


section \<open>Scorers and surroundings for evaluating concrete inputs\<close>

text \<open>
  Every general statement below holds for arbitrary scorers. Where a closed term needs
  scorers, it uses the pair defined here. The pair is a stand-in in exact arithmetic and
  not a rendering of the fuzzywuzzy functions: equal strings score 100, an empty string
  scores 0, and otherwise \<open>fuzz_ratio\<close> is \<open>100 * 2 * L / (len s1 + len s2)\<close> rounded to
  the nearest integer (ties to the even one), \<open>L\<close> the length of a longest common
  subsequence, and \<open>fuzz_partial_ratio\<close> is the best such score of the shorter string
  against every window of its length in the longer string. The library rounds a
  floating-point quotient and scores only the windows aligned on matching blocks, so on
  unequal strings its scores can differ from these. No statement below rests on a score
  of unequal strings being a particular number: \<open>fuzz_partial_ratio\<close> is evaluated
  only on two equal strings, and \<open>fuzz_ratio\<close> only in the truck-type stage on the
  mention \<^verbatim>\<open>bolero\<close>, where the result is decided by the keyword equal to the mention
  scoring 100 and every other keyword scoring less than 100, as they do with these
  scorers and with the library.
\<close>

fun lcs_row :: "char \<Rightarrow> string \<Rightarrow> nat list \<Rightarrow> nat \<Rightarrow> nat \<Rightarrow> nat list" where
  "lcs_row x [] prev diag left = []"
| "lcs_row x (y # ys) prev diag left =
     (case prev of
        [] \<Rightarrow> []
      | up # prev' \<Rightarrow>
          (let v = (if x = y then diag + 1 else max up left)
           in v # lcs_row x ys prev' up v))"

definition lcs_length :: "string \<Rightarrow> string \<Rightarrow> nat" where
  "lcs_length s1 s2 =
     last (fold (\<lambda>x row. 0 # lcs_row x s2 (tl row) 0 0) s1 (replicate (length s2 + 1) 0))"

definition intr_div :: "nat \<Rightarrow> nat \<Rightarrow> int" where
  "intr_div a b =
     (let q = a div b; r = a mod b
      in int (if 2 * r < b then q else if 2 * r > b then q + 1
              else if even q then q else q + 1))"

definition indel_score :: "string \<Rightarrow> string \<Rightarrow> int" where
  "indel_score s1 s2 = intr_div (200 * lcs_length s1 s2) (length s1 + length s2)"

definition fuzz_ratio :: "string \<Rightarrow> string \<Rightarrow> int" where
  "fuzz_ratio s1 s2 =
     (if s1 = s2 then 100 else if s1 = [] \<or> s2 = [] then 0 else indel_score s1 s2)"

definition fuzz_partial_ratio :: "string \<Rightarrow> string \<Rightarrow> int" where
  "fuzz_partial_ratio s1 s2 =
     (if s1 = s2 then 100 else if s1 = [] \<or> s2 = [] then 0
      else
        (let shorter = (if length s1 \<le> length s2 then s1 else s2);
             longer = (if length s1 \<le> length s2 then s2 else s1);
             windows = map (\<lambda>i. take (length shorter) (drop i longer))
                           [0 ..< length longer - length shorter + 1]
         in fold (\<lambda>w best. max best (indel_score shorter w)) windows 0))"

definition example_env :: env where
  "example_env =
     \<lparr>now = 739252, db_bodies = [], partial_ratio = fuzz_partial_ratio, ratio = fuzz_ratio,
      call_openai = (\<lambda>messages. Some ''Noted. Which city is the pickup?'')\<rparr>"

definition example_prompt :: string where
  "example_prompt = ''You are DropTruck Sales Agent.''"


definition hello_exchange :: "message list" where
  "hello_exchange =
     [\<lparr>role = ''user'', content = ''hello''\<rparr>,
      \<lparr>role = ''assistant'', content = ''Noted. Which city is the pickup?''\<rparr>]"

definition echo_utterance :: string where
  "echo_utterance = ''Pickup in Chennai, drop in Bangalore, truck 32 feet multi-axle''"

definition example_filled :: BookingData where
  "example_filled =
     \<lparr>customer_name = Some ''Ravi'', contact = Some ''9876543210'', lead_source = None,
      pickup_location = Some ''Chennai'', drop_location = Some ''Bangalore'',
      vehicle_type = Some ''Truck'', body_type = Some ''Open'', goods_type = Some ''Cement'',
      trip_date = Some ''2025-01-02'', confirmation_status = ''pending'', extra_attrs = []\<rparr>"


section \<open>Properties\<close>

subsection \<open>Substring test\<close>

lemma isin_iff: "isin sub s \<longleftrightarrow> (\<exists>pre post. s = pre @ sub @ post)"
proof (induction s)
  case Nil
  then show ?case by auto
next
  case (Cons c cs)
  show ?case
  proof
    assume "isin sub (c # cs)"
    then consider "prefix sub (c # cs)" | "isin sub cs" by auto
    then show "\<exists>pre post. c # cs = pre @ sub @ post"
    proof cases
      case 1
      then obtain post where "c # cs = sub @ post" by (auto simp: prefix_def)
      then have "c # cs = [] @ sub @ post" by simp
      then show ?thesis by blast
    next
      case 2
      with Cons.IH obtain pre post where "cs = pre @ sub @ post" by blast
      then have "c # cs = (c # pre) @ sub @ post" by simp
      then show ?thesis by blast
    qed
  next
    assume "\<exists>pre post. c # cs = pre @ sub @ post"
    then obtain pre post where eq: "c # cs = pre @ sub @ post" by blast
    show "isin sub (c # cs)"
    proof (cases pre)
      case Nil
      with eq have "prefix sub (c # cs)" by (simp add: prefix_def)
      then show ?thesis by simp
    next
      case (Cons a pre')
      with eq have "cs = pre' @ sub @ post" by simp
      with Cons.IH have "isin sub cs" by blast
      then show ?thesis by simp
    qed
  qed
qed

lemma isin_trans: "isin a b \<Longrightarrow> isin b s \<Longrightarrow> isin a s"
proof -
  assume "isin a b" and "isin b s"
  then obtain p1 q1 p2 q2 where "b = p1 @ a @ q1" and "s = p2 @ b @ q2"
    by (auto simp: isin_iff)
  then have "s = (p2 @ p1) @ a @ (q1 @ q2)" by simp
  then show ?thesis unfolding isin_iff by blast
qed

subsection \<open>Trip date\<close>

lemma tomorrow_in_day_after_tomorrow: "isin ''tomorrow'' ''day after tomorrow''"
  by simp

lemma day_after_tomorrow_never_two_days:
  assumes "isin ''day after tomorrow'' text_lower" and "\<not> truthy (trip_date bd)"
  shows "trip_date (extract_trip_date today text_lower bd) = Some (strftime_ymd today) \<or>
         trip_date (extract_trip_date today text_lower bd) = Some (strftime_ymd (today + 1))"
proof -
  have "isin ''tomorrow'' text_lower"
    using isin_trans [OF tomorrow_in_day_after_tomorrow assms(1)] .
  with assms(2) show ?thesis by (simp add: extract_trip_date_def)
qed

text \<open>
  C1. The claim: an utterance containing "day after tomorrow", processed against a
  record with no trip date, gets the current date plus two days. On the code, the
  utterance "day after tomorrow" on 2025-01-01 (ordinal 739252) gets 2025-01-02, the
  current date plus one day: the test for "tomorrow" comes first and the phrase
  contains that word. The date two days ahead would be 2025-01-03.
\<close>

theorem C1_day_after_tomorrow_sets_next_day:
  "isin ''day after tomorrow'' (lower ''day after tomorrow'') \<and>
   trip_date BookingData_init = None \<and>
   trip_date (extract_trip_date 739252 (lower ''day after tomorrow'') BookingData_init)
     = Some ''2025-01-02'' \<and>
   strftime_ymd (739252 + 2) = ''2025-01-03''"
  by (simp add: extract_trip_date_def BookingData_init_def strftime_ymd_def ord2ymd_def
      Let_def days_before_month_def days_in_month_def pad2_def pad4_def digit_chr_def
      lower_def lower_chr_def is_upper_def is_ascii_upper_def cp_def)

subsection \<open>Confirmation detection\<close>

text \<open>
  C2. The claim: an utterance with a confirmation keyword and a rejection keyword,
  processed from \<open>pending\<close>, ends in \<open>not_interested\<close>. On the code the utterance
  "yes no" ends in \<open>confirmed\<close>: the rejection test only acts while the status is
  still \<open>pending\<close>, and the confirmation test before it has already left that state.
\<close>

theorem C2_both_keywords_counterexample:
  "any_in confirmation_keywords (lower ''yes no'') \<and>
   any_in rejection_keywords (lower ''yes no'') \<and>
   confirmation_status BookingData_init = ''pending'' \<and>
   confirmation_status (detect_confirmation ''yes no'' BookingData_init) = ''confirmed'' \<and>
   confirmation_status (detect_confirmation ''yes no'' BookingData_init) \<noteq> ''not_interested''"
  by (simp add: any_in_def confirmation_keywords_def rejection_keywords_def lower_def
      lower_chr_def is_upper_def is_ascii_upper_def cp_def detect_confirmation_def
      BookingData_init_def Let_def)

text \<open>
  C2, amended. For every utterance whose lower-cased text contains at least one
  confirmation keyword and at least one rejection keyword, confirmation detection from
  \<open>pending\<close> ends in \<open>confirmed\<close>: the confirmation test runs first and the rejection
  test, guarded by the status being \<open>pending\<close>, no longer applies.
\<close>

theorem C2_both_keywords_confirmed:
  assumes "any_in confirmation_keywords (lower text)"
    and "any_in rejection_keywords (lower text)"
    and "confirmation_status bd = ''pending''"
  shows "confirmation_status (detect_confirmation text bd) = ''confirmed''"
  using assms by (simp add: detect_confirmation_def Let_def)

theorem C2_both_keywords_confirmed_witness:
  "any_in confirmation_keywords (lower ''Sure, no problem'') \<and>
   any_in rejection_keywords (lower ''Sure, no problem'') \<and>
   confirmation_status BookingData_init = ''pending'' \<and>
   confirmation_status (detect_confirmation ''Sure, no problem'' BookingData_init) = ''confirmed''"
proof -
  have a: "any_in confirmation_keywords (lower ''Sure, no problem'')"
    by (simp add: any_in_def confirmation_keywords_def lower_def lower_chr_def is_upper_def
        is_ascii_upper_def cp_def ascii_lowercase_def)
  have b: "any_in rejection_keywords (lower ''Sure, no problem'')"
    by (simp add: any_in_def rejection_keywords_def lower_def lower_chr_def is_upper_def
        is_ascii_upper_def cp_def ascii_lowercase_def)
  have c: "confirmation_status BookingData_init = ''pending''"
    by (simp add: BookingData_init_def)
  show ?thesis
    by (intro conjI a b c C2_both_keywords_confirmed [OF a b c])
qed

subsection \<open>Updating a field by name\<close>

lemma in_data_attrs:
  "field \<in> set data_attrs \<longleftrightarrow>
    (field = ''customer_name'' \<or>
     field = ''contact'' \<or>
     field = ''lead_source'' \<or>
     field = ''pickup_location'' \<or>
     field = ''drop_location'' \<or>
     field = ''vehicle_type'' \<or>
     field = ''body_type'' \<or>
     field = ''goods_type'' \<or>
     field = ''trip_date'' \<or>
     field = ''confirmation_status'')"
  by (simp add: data_attrs_def)

lemma instance_attr_store_same: "instance_attr (store_attr bd field v) field = Some (Some v)"
proof (cases "field \<in> set data_attrs")
  case True
  then show ?thesis
    unfolding data_attrs_def by (auto simp: store_attr_def instance_attr_def)
next
  case False
  then show ?thesis
    by (simp add: data_attrs_def store_attr_def instance_attr_def)
qed

lemma store_attr_data:
  "store_attr bd ''customer_name'' v = bd\<lparr>customer_name := Some v\<rparr>"
  "store_attr bd ''contact'' v = bd\<lparr>contact := Some v\<rparr>"
  "store_attr bd ''lead_source'' v = bd\<lparr>lead_source := Some v\<rparr>"
  "store_attr bd ''pickup_location'' v = bd\<lparr>pickup_location := Some v\<rparr>"
  "store_attr bd ''drop_location'' v = bd\<lparr>drop_location := Some v\<rparr>"
  "store_attr bd ''vehicle_type'' v = bd\<lparr>vehicle_type := Some v\<rparr>"
  "store_attr bd ''body_type'' v = bd\<lparr>body_type := Some v\<rparr>"
  "store_attr bd ''goods_type'' v = bd\<lparr>goods_type := Some v\<rparr>"
  "store_attr bd ''trip_date'' v = bd\<lparr>trip_date := Some v\<rparr>"
  "store_attr bd ''confirmation_status'' v = bd\<lparr>confirmation_status := v\<rparr>"
  by (simp_all add: store_attr_def)

lemma instance_attr_data_frame:
  "other \<noteq> ''customer_name'' \<Longrightarrow> instance_attr (bd\<lparr>customer_name := x0\<rparr>) other = instance_attr bd other"
  "other \<noteq> ''contact'' \<Longrightarrow> instance_attr (bd\<lparr>contact := x1\<rparr>) other = instance_attr bd other"
  "other \<noteq> ''lead_source'' \<Longrightarrow> instance_attr (bd\<lparr>lead_source := x2\<rparr>) other = instance_attr bd other"
  "other \<noteq> ''pickup_location'' \<Longrightarrow> instance_attr (bd\<lparr>pickup_location := x3\<rparr>) other = instance_attr bd other"
  "other \<noteq> ''drop_location'' \<Longrightarrow> instance_attr (bd\<lparr>drop_location := x4\<rparr>) other = instance_attr bd other"
  "other \<noteq> ''vehicle_type'' \<Longrightarrow> instance_attr (bd\<lparr>vehicle_type := x5\<rparr>) other = instance_attr bd other"
  "other \<noteq> ''body_type'' \<Longrightarrow> instance_attr (bd\<lparr>body_type := x6\<rparr>) other = instance_attr bd other"
  "other \<noteq> ''goods_type'' \<Longrightarrow> instance_attr (bd\<lparr>goods_type := x7\<rparr>) other = instance_attr bd other"
  "other \<noteq> ''trip_date'' \<Longrightarrow> instance_attr (bd\<lparr>trip_date := x8\<rparr>) other = instance_attr bd other"
  "other \<noteq> ''confirmation_status'' \<Longrightarrow> instance_attr (bd\<lparr>confirmation_status := x9\<rparr>) other = instance_attr bd other"
  by (simp_all add: instance_attr_def)

lemma instance_attr_store_other:
  assumes "other \<noteq> field"
  shows "instance_attr (store_attr bd field v) other = instance_attr bd other"
proof (cases "field \<in> set data_attrs")
  case True
  then have "field = ''customer_name'' \<or> field = ''contact'' \<or> field = ''lead_source'' \<or> field = ''pickup_location'' \<or> field = ''drop_location'' \<or> field = ''vehicle_type'' \<or> field = ''body_type'' \<or> field = ''goods_type'' \<or> field = ''trip_date'' \<or> field = ''confirmation_status''"
    by (simp only: in_data_attrs)
  then show ?thesis
    using assms
    by (elim disjE) (simp_all only: store_attr_data instance_attr_data_frame not_False_eq_True)
next
  case False
  then have "store_attr bd field v = bd\<lparr>extra_attrs := (field, v) # extra_attrs bd\<rparr>"
    by (simp add: data_attrs_def store_attr_def)
  then show ?thesis
    using assms by (simp add: instance_attr_def)
qed

lemma hasattr_descriptors:
  "hasattr bd ''__class__''" "hasattr bd ''__dict__''" "hasattr bd ''__weakref__''"
  by (simp_all add: hasattr_def class_attrs_def object_attrs_def)

text \<open>
  C10, as the claim states it, fails on the code: \<^verbatim>\<open>__class__\<close> is an attribute of
  every record, and \<open>update_field\<close> with that name and a string value sets nothing;
  the call raises \<^verbatim>\<open>TypeError\<close>.
\<close>

theorem C10_class_attribute_counterexample:
  "hasattr BookingData_init ''__class__'' \<and>
   update_field ''__class__'' ''x'' BookingData_init = Inl TypeError"
  by (simp add: update_field_def setattr_def hasattr_def object_attrs_def)

text \<open>
  C10, amended. \<open>update_field\<close> with a name that is no attribute of the record
  returns the record as it is. With a name that is an attribute, other than
  \<^verbatim>\<open>__class__\<close>, \<^verbatim>\<open>__dict__\<close> and \<^verbatim>\<open>__weakref__\<close>, it returns the record in which the
  instance dictionary holds the given value under that name and holds under every
  other name what it held before; this covers the ten data attributes, attributes
  attached earlier, and the names of methods and of inherited attributes, which the
  new entry shadows. With \<^verbatim>\<open>__class__\<close> or \<^verbatim>\<open>__dict__\<close> it raises \<^verbatim>\<open>TypeError\<close>, with
  \<^verbatim>\<open>__weakref__\<close> it raises \<^verbatim>\<open>AttributeError\<close>, and there is no updated record.
\<close>

theorem C10_update_field_frame:
  "(\<not> hasattr bd field \<longrightarrow> update_field field v bd = Inr bd) \<and>
   (hasattr bd field \<and> field \<noteq> ''__class__'' \<and> field \<noteq> ''__dict__'' \<and>
      field \<noteq> ''__weakref__'' \<longrightarrow>
      update_field field v bd = Inr (store_attr bd field v) \<and>
      instance_attr (store_attr bd field v) field = Some (Some v) \<and>
      (\<forall>other. other \<noteq> field \<longrightarrow>
         instance_attr (store_attr bd field v) other = instance_attr bd other)) \<and>
   (field = ''__class__'' \<or> field = ''__dict__'' \<longrightarrow>
      hasattr bd field \<and> update_field field v bd = Inl TypeError) \<and>
   (field = ''__weakref__'' \<longrightarrow>
      hasattr bd field \<and> update_field field v bd = Inl AttributeError)"
proof (intro conjI impI)
  assume "\<not> hasattr bd field"
  then show "update_field field v bd = Inr bd"
    by (simp add: update_field_def)
next
  assume a: "hasattr bd field \<and> field \<noteq> ''__class__'' \<and> field \<noteq> ''__dict__'' \<and>
      field \<noteq> ''__weakref__''"
  then show "update_field field v bd = Inr (store_attr bd field v)"
    by (simp add: update_field_def setattr_def)
  show "instance_attr (store_attr bd field v) field = Some (Some v)"
    by (rule instance_attr_store_same)
  show "\<forall>other. other \<noteq> field \<longrightarrow>
         instance_attr (store_attr bd field v) other = instance_attr bd other"
    by (simp add: instance_attr_store_other)
next
  assume "field = ''__class__'' \<or> field = ''__dict__''"
  then show "hasattr bd field"
    using hasattr_descriptors by auto
next
  assume a: "field = ''__class__'' \<or> field = ''__dict__''"
  then have "hasattr bd field"
    using hasattr_descriptors by auto
  with a show "update_field field v bd = Inl TypeError"
    by (auto simp add: update_field_def setattr_def)
next
  assume "field = ''__weakref__''"
  then show "hasattr bd field"
    using hasattr_descriptors by simp
next
  assume a: "field = ''__weakref__''"
  then have "hasattr bd field"
    using hasattr_descriptors by simp
  with a show "update_field field v bd = Inl AttributeError"
    by (simp add: update_field_def setattr_def)
qed

theorem C10_update_field_frame_witness:
  "\<not> hasattr BookingData_init ''colour'' \<and>
   update_field ''colour'' ''red'' BookingData_init = Inr BookingData_init \<and>
   (hasattr BookingData_init ''contact'' \<and> ''contact'' \<noteq> ''__class__'' \<and>
      ''contact'' \<noteq> ''__dict__'' \<and> ''contact'' \<noteq> ''__weakref__'') \<and>
   update_field ''contact'' ''9876543210'' BookingData_init
     = Inr (store_attr BookingData_init ''contact'' ''9876543210'') \<and>
   instance_attr (store_attr BookingData_init ''contact'' ''9876543210'') ''contact''
     = Some (Some ''9876543210'') \<and>
   instance_attr (store_attr BookingData_init ''contact'' ''9876543210'') ''trip_date''
     = instance_attr BookingData_init ''trip_date'' \<and>
   (hasattr BookingData_init ''__doc__'' \<and> ''__doc__'' \<noteq> ''__class__'' \<and>
      ''__doc__'' \<noteq> ''__dict__'' \<and> ''__doc__'' \<noteq> ''__weakref__'') \<and>
   instance_attr BookingData_init ''__doc__'' = None \<and>
   instance_attr (store_attr BookingData_init ''__doc__'' ''note'') ''__doc__''
     = Some (Some ''note'') \<and>
   update_field ''__dict__'' ''x'' BookingData_init = Inl TypeError \<and>
   update_field ''__weakref__'' ''x'' BookingData_init = Inl AttributeError"
proof -
  have a: "\<not> hasattr BookingData_init ''colour''"
    by (simp add: hasattr_def BookingData_init_def in_data_attrs class_attrs_def
        object_attrs_def)
  have b: "hasattr BookingData_init ''contact'' \<and> ''contact'' \<noteq> ''__class__'' \<and>
      ''contact'' \<noteq> ''__dict__'' \<and> ''contact'' \<noteq> ''__weakref__''"
    by (simp add: hasattr_def in_data_attrs)
  have c: "''trip_date'' \<noteq> ''contact''" by simp
  have d: "hasattr BookingData_init ''__doc__'' \<and> ''__doc__'' \<noteq> ''__class__'' \<and>
      ''__doc__'' \<noteq> ''__dict__'' \<and> ''__doc__'' \<noteq> ''__weakref__''"
    by (simp add: hasattr_def class_attrs_def)
  have e: "instance_attr BookingData_init ''__doc__'' = None"
    by (simp add: instance_attr_def BookingData_init_def)
  have f: "''__dict__'' = ''__class__'' \<or> ''__dict__'' = ''__dict__''" by simp
  note t1 = C10_update_field_frame [of BookingData_init "''colour''" "''red''", THEN conjunct1, rule_format, OF a]
  note t2 = C10_update_field_frame [of BookingData_init "''contact''" "''9876543210''", THEN conjunct2, THEN conjunct1, rule_format, OF b]
  note t3 = t2 [THEN conjunct1]
  note t4 = t2 [THEN conjunct2, THEN conjunct1]
  note t5 = t2 [THEN conjunct2, THEN conjunct2, rule_format, OF c]
  note t6 = C10_update_field_frame [of BookingData_init "''__doc__''" "''note''", THEN conjunct2, THEN conjunct1, rule_format, OF d]
  note t7 = t6 [THEN conjunct2, THEN conjunct1]
  note t8 = C10_update_field_frame [of BookingData_init "''__dict__''" "''x''", THEN conjunct2, THEN conjunct2, THEN conjunct1, rule_format, OF f, THEN conjunct2]
  note t9 = C10_update_field_frame [of BookingData_init "''__weakref__''" "''x''", THEN conjunct2, THEN conjunct2, THEN conjunct2, rule_format, OF refl, THEN conjunct2]
  show ?thesis
    by (intro conjI a b [THEN conjunct1] b [THEN conjunct2, THEN conjunct1]
        b [THEN conjunct2, THEN conjunct2, THEN conjunct1]
        b [THEN conjunct2, THEN conjunct2, THEN conjunct2]
        d [THEN conjunct1] d [THEN conjunct2, THEN conjunct1]
        d [THEN conjunct2, THEN conjunct2, THEN conjunct1]
        d [THEN conjunct2, THEN conjunct2, THEN conjunct2]
        e t1 t3 t4 t5 t7 t8 t9)
qed

subsection \<open>What each extractor writes\<close>

text \<open>
  The fuzzy stage computes \<open>best_score\<close> and \<open>best_match\<close> but never assigns
  \<open>best_vehicle\<close>, so its final test fails and it leaves the record as it is. Every
  other extractor writes its own target attributes only.
\<close>

lemma fuzzy_keywords_loop_best_vehicle:
  "snd (snd (fuzzy_keywords_loop pr phrase kws st)) = snd (snd st)"
  unfolding fuzzy_keywords_loop_def
  by (induction kws arbitrary: st) (auto simp: Let_def split: prod.splits)

lemma fuzzy_fold_best_vehicle:
  "snd (snd (fold (\<lambda>phrase st.
             if length phrase < 3 \<and> phrase \<notin> set [''ac'', ''407''] then st
             else fuzzy_keywords_loop pr phrase kws st) ps st)) = snd (snd st)"
  by (induction ps arbitrary: st) (simp_all add: fuzzy_keywords_loop_best_vehicle)

lemma fuzzy_phrases_loop_best_vehicle:
  "snd (snd (fuzzy_phrases_loop pr kws ws)) = None"
  unfolding fuzzy_phrases_loop_def by (simp only: fuzzy_fold_best_vehicle) simp

lemma extract_vehicle_fuzzy_noop: "extract_vehicle_fuzzy pr kws text_lower bd = bd"
proof -
  obtain bm bs bv where st: "fuzzy_phrases_loop pr kws (split text_lower) = (bm, bs, bv)"
    by (cases "fuzzy_phrases_loop pr kws (split text_lower)") auto
  have "bv = None"
    using fuzzy_phrases_loop_best_vehicle [of pr kws "split text_lower"] st by simp
  then show ?thesis by (simp add: extract_vehicle_fuzzy_def st)
qed

lemma name_loop_only:
  "name_loop ps t bd = bd\<lparr>customer_name := customer_name (name_loop ps t bd)\<rparr>"
  by (induction ps) (auto simp: Let_def split: option.splits list.splits)

lemma phone_loop_only:
  "phone_loop ps t bd = bd\<lparr>contact := contact (phone_loop ps t bd)\<rparr>"
  by (induction ps) (auto simp: Let_def split: option.splits list.splits)

lemma body_loop_only:
  "body_loop items t bd = bd\<lparr>body_type := body_type (body_loop items t bd)\<rparr>"
  by (induction items) (auto simp: Let_def split: option.splits list.splits)

lemma goods_loop_only:
  "goods_loop ps t bd = bd\<lparr>goods_type := goods_type (goods_loop ps t bd)\<rparr>"
  by (induction ps) (auto simp: Let_def split: option.splits list.splits)

lemma conf_phone_loop_only:
  "conf_phone_loop ps t bd = bd\<lparr>contact := contact (conf_phone_loop ps t bd)\<rparr>"
  by (induction ps) (auto simp: Let_def split: option.splits list.splits)

lemma extract_name_only:
  "extract_name t bd = bd\<lparr>customer_name := customer_name (extract_name t bd)\<rparr>"
proof -
  have "extract_name t bd = bd \<or> (\<exists>v. extract_name t bd = bd\<lparr>customer_name := v\<rparr>) \<or>
        extract_name t bd = name_loop [name_pattern1, name_pattern2] t bd"
    by (auto simp add: extract_name_def Let_def simp del: name_loop.simps)
  then consider (same) "extract_name t bd = bd" | (upd) v where "extract_name t bd = bd\<lparr>customer_name := v\<rparr>"
    | (loop) "extract_name t bd = name_loop [name_pattern1, name_pattern2] t bd"
    by blast
  then show ?thesis
  proof cases
    case same
    then show ?thesis by simp
  next
    case upd
    then show ?thesis by simp
  next
    case loop
    show ?thesis unfolding loop by (rule name_loop_only)
  qed
qed

lemma extract_name_frame:
  "contact (extract_name t bd) = contact bd"
  "lead_source (extract_name t bd) = lead_source bd"
  "pickup_location (extract_name t bd) = pickup_location bd"
  "drop_location (extract_name t bd) = drop_location bd"
  "vehicle_type (extract_name t bd) = vehicle_type bd"
  "body_type (extract_name t bd) = body_type bd"
  "goods_type (extract_name t bd) = goods_type bd"
  "trip_date (extract_name t bd) = trip_date bd"
  "confirmation_status (extract_name t bd) = confirmation_status bd"
  "extra_attrs (extract_name t bd) = extra_attrs bd"
  by (subst extract_name_only, simp)+

lemma extract_phone_only:
  "extract_phone t bd = bd\<lparr>contact := contact (extract_phone t bd)\<rparr>"
proof -
  have "extract_phone t bd = bd \<or> (\<exists>v. extract_phone t bd = bd\<lparr>contact := v\<rparr>) \<or>
        extract_phone t bd = phone_loop [phone_pattern1, phone_pattern2, phone_pattern3] t bd"
    by (auto simp add: extract_phone_def Let_def simp del: phone_loop.simps)
  then consider (same) "extract_phone t bd = bd" | (upd) v where "extract_phone t bd = bd\<lparr>contact := v\<rparr>"
    | (loop) "extract_phone t bd = phone_loop [phone_pattern1, phone_pattern2, phone_pattern3] t bd"
    by blast
  then show ?thesis
  proof cases
    case same
    then show ?thesis by simp
  next
    case upd
    then show ?thesis by simp
  next
    case loop
    show ?thesis unfolding loop by (rule phone_loop_only)
  qed
qed

lemma extract_phone_frame:
  "customer_name (extract_phone t bd) = customer_name bd"
  "lead_source (extract_phone t bd) = lead_source bd"
  "pickup_location (extract_phone t bd) = pickup_location bd"
  "drop_location (extract_phone t bd) = drop_location bd"
  "vehicle_type (extract_phone t bd) = vehicle_type bd"
  "body_type (extract_phone t bd) = body_type bd"
  "goods_type (extract_phone t bd) = goods_type bd"
  "trip_date (extract_phone t bd) = trip_date bd"
  "confirmation_status (extract_phone t bd) = confirmation_status bd"
  "extra_attrs (extract_phone t bd) = extra_attrs bd"
  by (subst extract_phone_only, simp)+

lemma extract_from_to_only:
  "extract_from_to t bd = bd\<lparr>pickup_location := pickup_location (extract_from_to t bd), drop_location := drop_location (extract_from_to t bd)\<rparr>"
  by (auto simp: extract_from_to_def Let_def split: option.splits list.splits prod.splits)

lemma extract_from_to_frame:
  "customer_name (extract_from_to t bd) = customer_name bd"
  "contact (extract_from_to t bd) = contact bd"
  "lead_source (extract_from_to t bd) = lead_source bd"
  "vehicle_type (extract_from_to t bd) = vehicle_type bd"
  "body_type (extract_from_to t bd) = body_type bd"
  "goods_type (extract_from_to t bd) = goods_type bd"
  "trip_date (extract_from_to t bd) = trip_date bd"
  "confirmation_status (extract_from_to t bd) = confirmation_status bd"
  "extra_attrs (extract_from_to t bd) = extra_attrs bd"
  by (subst extract_from_to_only, simp)+

lemma extract_confirmation_locations_only:
  "extract_confirmation_locations t bd = bd\<lparr>pickup_location := pickup_location (extract_confirmation_locations t bd), drop_location := drop_location (extract_confirmation_locations t bd)\<rparr>"
  by (auto simp: extract_confirmation_locations_def Let_def split: option.splits list.splits prod.splits)

lemma extract_confirmation_locations_frame:
  "customer_name (extract_confirmation_locations t bd) = customer_name bd"
  "contact (extract_confirmation_locations t bd) = contact bd"
  "lead_source (extract_confirmation_locations t bd) = lead_source bd"
  "vehicle_type (extract_confirmation_locations t bd) = vehicle_type bd"
  "body_type (extract_confirmation_locations t bd) = body_type bd"
  "goods_type (extract_confirmation_locations t bd) = goods_type bd"
  "trip_date (extract_confirmation_locations t bd) = trip_date bd"
  "confirmation_status (extract_confirmation_locations t bd) = confirmation_status bd"
  "extra_attrs (extract_confirmation_locations t bd) = extra_attrs bd"
  by (subst extract_confirmation_locations_only, simp)+

lemma extract_body_type_only:
  "extract_body_type db t bd = bd\<lparr>body_type := body_type (extract_body_type db t bd)\<rparr>"
proof -
  have "extract_body_type db t bd = bd \<or> (\<exists>v. extract_body_type db t bd = bd\<lparr>body_type := v\<rparr>) \<or>
        extract_body_type db t bd = body_loop (local_body_types db) t bd"
    by (auto simp add: extract_body_type_def Let_def simp del: body_loop.simps)
  then consider (same) "extract_body_type db t bd = bd" | (upd) v where "extract_body_type db t bd = bd\<lparr>body_type := v\<rparr>"
    | (loop) "extract_body_type db t bd = body_loop (local_body_types db) t bd"
    by blast
  then show ?thesis
  proof cases
    case same
    then show ?thesis by simp
  next
    case upd
    then show ?thesis by simp
  next
    case loop
    show ?thesis unfolding loop by (rule body_loop_only)
  qed
qed

lemma extract_body_type_frame:
  "customer_name (extract_body_type db t bd) = customer_name bd"
  "contact (extract_body_type db t bd) = contact bd"
  "lead_source (extract_body_type db t bd) = lead_source bd"
  "pickup_location (extract_body_type db t bd) = pickup_location bd"
  "drop_location (extract_body_type db t bd) = drop_location bd"
  "vehicle_type (extract_body_type db t bd) = vehicle_type bd"
  "goods_type (extract_body_type db t bd) = goods_type bd"
  "trip_date (extract_body_type db t bd) = trip_date bd"
  "confirmation_status (extract_body_type db t bd) = confirmation_status bd"
  "extra_attrs (extract_body_type db t bd) = extra_attrs bd"
  by (subst extract_body_type_only, simp)+

lemma extract_vehicle_truck_type_only:
  "extract_vehicle_truck_type rt kws t bd = bd\<lparr>vehicle_type := vehicle_type (extract_vehicle_truck_type rt kws t bd)\<rparr>"
  by (auto simp: extract_vehicle_truck_type_def Let_def split: option.splits list.splits prod.splits)

lemma extract_vehicle_truck_type_frame:
  "customer_name (extract_vehicle_truck_type rt kws t bd) = customer_name bd"
  "contact (extract_vehicle_truck_type rt kws t bd) = contact bd"
  "lead_source (extract_vehicle_truck_type rt kws t bd) = lead_source bd"
  "pickup_location (extract_vehicle_truck_type rt kws t bd) = pickup_location bd"
  "drop_location (extract_vehicle_truck_type rt kws t bd) = drop_location bd"
  "body_type (extract_vehicle_truck_type rt kws t bd) = body_type bd"
  "goods_type (extract_vehicle_truck_type rt kws t bd) = goods_type bd"
  "trip_date (extract_vehicle_truck_type rt kws t bd) = trip_date bd"
  "confirmation_status (extract_vehicle_truck_type rt kws t bd) = confirmation_status bd"
  "extra_attrs (extract_vehicle_truck_type rt kws t bd) = extra_attrs bd"
  by (subst extract_vehicle_truck_type_only, simp)+

lemma extract_vehicle_fallback_only:
  "extract_vehicle_fallback t bd = bd\<lparr>vehicle_type := vehicle_type (extract_vehicle_fallback t bd)\<rparr>"
  by (auto simp: extract_vehicle_fallback_def Let_def split: option.splits list.splits prod.splits)

lemma extract_vehicle_fallback_frame:
  "customer_name (extract_vehicle_fallback t bd) = customer_name bd"
  "contact (extract_vehicle_fallback t bd) = contact bd"
  "lead_source (extract_vehicle_fallback t bd) = lead_source bd"
  "pickup_location (extract_vehicle_fallback t bd) = pickup_location bd"
  "drop_location (extract_vehicle_fallback t bd) = drop_location bd"
  "body_type (extract_vehicle_fallback t bd) = body_type bd"
  "goods_type (extract_vehicle_fallback t bd) = goods_type bd"
  "trip_date (extract_vehicle_fallback t bd) = trip_date bd"
  "confirmation_status (extract_vehicle_fallback t bd) = confirmation_status bd"
  "extra_attrs (extract_vehicle_fallback t bd) = extra_attrs bd"
  by (subst extract_vehicle_fallback_only, simp)+

lemma extract_goods_only:
  "extract_goods t bd = bd\<lparr>goods_type := goods_type (extract_goods t bd)\<rparr>"
proof -
  have "extract_goods t bd = bd \<or> (\<exists>v. extract_goods t bd = bd\<lparr>goods_type := v\<rparr>) \<or>
        extract_goods t bd = goods_loop [material_pattern1, material_pattern2, material_pattern3,
             material_pattern4, material_pattern5, material_pattern6] t bd"
    by (auto simp add: extract_goods_def Let_def simp del: goods_loop.simps)
  then consider (same) "extract_goods t bd = bd" | (upd) v where "extract_goods t bd = bd\<lparr>goods_type := v\<rparr>"
    | (loop) "extract_goods t bd = goods_loop [material_pattern1, material_pattern2, material_pattern3,
             material_pattern4, material_pattern5, material_pattern6] t bd"
    by blast
  then show ?thesis
  proof cases
    case same
    then show ?thesis by simp
  next
    case upd
    then show ?thesis by simp
  next
    case loop
    show ?thesis unfolding loop by (rule goods_loop_only)
  qed
qed

lemma extract_goods_frame:
  "customer_name (extract_goods t bd) = customer_name bd"
  "contact (extract_goods t bd) = contact bd"
  "lead_source (extract_goods t bd) = lead_source bd"
  "pickup_location (extract_goods t bd) = pickup_location bd"
  "drop_location (extract_goods t bd) = drop_location bd"
  "vehicle_type (extract_goods t bd) = vehicle_type bd"
  "body_type (extract_goods t bd) = body_type bd"
  "trip_date (extract_goods t bd) = trip_date bd"
  "confirmation_status (extract_goods t bd) = confirmation_status bd"
  "extra_attrs (extract_goods t bd) = extra_attrs bd"
  by (subst extract_goods_only, simp)+

lemma extract_conf_material_only:
  "extract_conf_material t bd = bd\<lparr>goods_type := goods_type (extract_conf_material t bd)\<rparr>"
  by (auto simp: extract_conf_material_def Let_def split: option.splits list.splits prod.splits)

lemma extract_conf_material_frame:
  "customer_name (extract_conf_material t bd) = customer_name bd"
  "contact (extract_conf_material t bd) = contact bd"
  "lead_source (extract_conf_material t bd) = lead_source bd"
  "pickup_location (extract_conf_material t bd) = pickup_location bd"
  "drop_location (extract_conf_material t bd) = drop_location bd"
  "vehicle_type (extract_conf_material t bd) = vehicle_type bd"
  "body_type (extract_conf_material t bd) = body_type bd"
  "trip_date (extract_conf_material t bd) = trip_date bd"
  "confirmation_status (extract_conf_material t bd) = confirmation_status bd"
  "extra_attrs (extract_conf_material t bd) = extra_attrs bd"
  by (subst extract_conf_material_only, simp)+

lemma extract_trip_date_only:
  "extract_trip_date today t bd = bd\<lparr>trip_date := trip_date (extract_trip_date today t bd)\<rparr>"
  by (auto simp: extract_trip_date_def Let_def split: option.splits list.splits prod.splits)

lemma extract_trip_date_frame:
  "customer_name (extract_trip_date today t bd) = customer_name bd"
  "contact (extract_trip_date today t bd) = contact bd"
  "lead_source (extract_trip_date today t bd) = lead_source bd"
  "pickup_location (extract_trip_date today t bd) = pickup_location bd"
  "drop_location (extract_trip_date today t bd) = drop_location bd"
  "vehicle_type (extract_trip_date today t bd) = vehicle_type bd"
  "body_type (extract_trip_date today t bd) = body_type bd"
  "goods_type (extract_trip_date today t bd) = goods_type bd"
  "confirmation_status (extract_trip_date today t bd) = confirmation_status bd"
  "extra_attrs (extract_trip_date today t bd) = extra_attrs bd"
  by (subst extract_trip_date_only, simp)+

lemma extract_conf_name_only:
  "extract_conf_name t bd = bd\<lparr>customer_name := customer_name (extract_conf_name t bd)\<rparr>"
  by (auto simp: extract_conf_name_def Let_def split: option.splits list.splits prod.splits)

lemma extract_conf_name_frame:
  "contact (extract_conf_name t bd) = contact bd"
  "lead_source (extract_conf_name t bd) = lead_source bd"
  "pickup_location (extract_conf_name t bd) = pickup_location bd"
  "drop_location (extract_conf_name t bd) = drop_location bd"
  "vehicle_type (extract_conf_name t bd) = vehicle_type bd"
  "body_type (extract_conf_name t bd) = body_type bd"
  "goods_type (extract_conf_name t bd) = goods_type bd"
  "trip_date (extract_conf_name t bd) = trip_date bd"
  "confirmation_status (extract_conf_name t bd) = confirmation_status bd"
  "extra_attrs (extract_conf_name t bd) = extra_attrs bd"
  by (subst extract_conf_name_only, simp)+

lemma extract_conf_phone_only:
  "extract_conf_phone t bd = bd\<lparr>contact := contact (extract_conf_phone t bd)\<rparr>"
proof -
  have "extract_conf_phone t bd = bd \<or> (\<exists>v. extract_conf_phone t bd = bd\<lparr>contact := v\<rparr>) \<or>
        extract_conf_phone t bd = conf_phone_loop [conf_phone_pattern1, conf_phone_pattern2, conf_phone_pattern3]
             t bd"
    by (auto simp add: extract_conf_phone_def Let_def simp del: conf_phone_loop.simps)
  then consider (same) "extract_conf_phone t bd = bd" | (upd) v where "extract_conf_phone t bd = bd\<lparr>contact := v\<rparr>"
    | (loop) "extract_conf_phone t bd = conf_phone_loop [conf_phone_pattern1, conf_phone_pattern2, conf_phone_pattern3]
             t bd"
    by blast
  then show ?thesis
  proof cases
    case same
    then show ?thesis by simp
  next
    case upd
    then show ?thesis by simp
  next
    case loop
    show ?thesis unfolding loop by (rule conf_phone_loop_only)
  qed
qed

lemma extract_conf_phone_frame:
  "customer_name (extract_conf_phone t bd) = customer_name bd"
  "lead_source (extract_conf_phone t bd) = lead_source bd"
  "pickup_location (extract_conf_phone t bd) = pickup_location bd"
  "drop_location (extract_conf_phone t bd) = drop_location bd"
  "vehicle_type (extract_conf_phone t bd) = vehicle_type bd"
  "body_type (extract_conf_phone t bd) = body_type bd"
  "goods_type (extract_conf_phone t bd) = goods_type bd"
  "trip_date (extract_conf_phone t bd) = trip_date bd"
  "confirmation_status (extract_conf_phone t bd) = confirmation_status bd"
  "extra_attrs (extract_conf_phone t bd) = extra_attrs bd"
  by (subst extract_conf_phone_only, simp)+

lemma detect_confirmation_only:
  "detect_confirmation t bd = bd\<lparr>confirmation_status := confirmation_status (detect_confirmation t bd)\<rparr>"
  by (auto simp: detect_confirmation_def Let_def split: option.splits list.splits prod.splits)

lemma detect_confirmation_frame:
  "customer_name (detect_confirmation t bd) = customer_name bd"
  "contact (detect_confirmation t bd) = contact bd"
  "lead_source (detect_confirmation t bd) = lead_source bd"
  "pickup_location (detect_confirmation t bd) = pickup_location bd"
  "drop_location (detect_confirmation t bd) = drop_location bd"
  "vehicle_type (detect_confirmation t bd) = vehicle_type bd"
  "body_type (detect_confirmation t bd) = body_type bd"
  "goods_type (detect_confirmation t bd) = goods_type bd"
  "trip_date (detect_confirmation t bd) = trip_date bd"
  "extra_attrs (detect_confirmation t bd) = extra_attrs bd"
  by (subst detect_confirmation_only, simp)+

subsection \<open>Evaluation and the confirmation status\<close>

lemmas frames =
  extract_name_frame extract_phone_frame extract_from_to_frame
  extract_confirmation_locations_frame extract_body_type_frame
  extract_vehicle_truck_type_frame extract_vehicle_fallback_frame extract_goods_frame
  extract_conf_material_frame extract_trip_date_frame extract_conf_name_frame
  extract_conf_phone_frame detect_confirmation_frame

lemmas char_eval =
  cp_def is_space_def is_digit_def is_ascii_upper_def is_ascii_lower_def is_upper_def
  is_word_def alpha_space_def alnum_space_def digit_6_9_def space_dash_def space_colon_def
  ascii_lowercase_def ascii_uppercase_def lower_chr_def upper_chr_def

lemmas text_eval =
  lower_def strip_def split_def title_def

lemma extract_booking_info_status:
  "confirmation_status (extract_booking_info e kws t bd) = confirmation_status bd"
  by (simp add: extract_booking_info_def Let_def frames extract_vehicle_fuzzy_noop)

lemma extract_from_confirmation_status:
  "confirmation_status (extract_from_confirmation t bd) = confirmation_status bd"
  by (simp add: extract_from_confirmation_def Let_def frames)

lemma detect_confirmation_settled:
  "confirmation_status bd \<noteq> ''pending'' \<Longrightarrow> detect_confirmation t bd = bd"
  by (simp add: detect_confirmation_def Let_def)

lemma generate_response_not_pending:
  assumes "confirmation_status (booking_data agent) \<noteq> ''pending''"
  shows "confirmation_status (booking_data (snd (generate_response e t agent))) \<noteq> ''pending''"
  using assms
  by (simp add: generate_response_def generate_response_io_def Let_def with_user_message_def
      extract_booking_info_status extract_from_confirmation_status
      detect_confirmation_settled split: option.splits)

lemma run_not_pending:
  "confirmation_status (booking_data agent) \<noteq> ''pending'' \<Longrightarrow>
   confirmation_status (booking_data (run calls agent)) \<noteq> ''pending''"
proof (induction calls arbitrary: agent)
  case Nil
  then show ?case by simp
next
  case (Cons call calls)
  obtain e t where call: "call = (e, t)" by (cases call)
  show ?case
    unfolding call run.simps
    by (rule Cons.IH) (rule generate_response_not_pending [OF Cons.prems])
qed

lemma strip_blank: "list_all is_space s \<Longrightarrow> strip s = []"
proof -
  assume "list_all is_space s"
  then have blank: "dropWhile is_space s = []" by (simp add: list_all_iff)
  show ?thesis unfolding strip_def blank by simp
qed

lemma bolero_truck: "re_search truck_type_pattern ''bolero'' = None"
  by (simp add: re_search_def truck_type_pattern_def)

lemma bolero_feet: "re_search feet_pattern ''bolero'' = None"
  by (simp add: re_search_def feet_pattern_def char_eval)

subsection \<open>The fuzzy stage\<close>

text \<open>
  C3. The claim: when some n-gram of the utterance scores at least 85 against a vehicle
  keyword, the fuzzy stage sets \<open>vehicle_type\<close> to the canonical name of the best
  keyword. On the code the fuzzy stage never changes the record, whatever the scorer,
  the keyword table and the utterance: \<open>best_vehicle\<close> is never assigned. For the
  utterance "bolero" and an empty record the n-gram "bolero" scores 100 against the
  keyword "bolero", the claim asks for "Bolero", and \<open>vehicle_type\<close> is still empty
  after the fuzzy stage and after the whole extraction.
\<close>

theorem C3_fuzzy_stage_sets_nothing:
  "extract_vehicle_fuzzy pr kws text_lower bd = bd \<and>
   partial_ratio example_env ''bolero'' ''bolero'' = 100 \<and>
   vehicle_type BookingData_init = None \<and>
   vehicle_type (extract_vehicle_fuzzy (partial_ratio example_env) default_vehicle_keywords
      (lower ''bolero'') BookingData_init) = None \<and>
   vehicle_type (extract_booking_info example_env default_vehicle_keywords ''bolero''
      BookingData_init) = None"
proof -
  have low: "lower ''bolero'' = ''bolero''"
    by (simp add: text_eval char_eval)
  have a: "partial_ratio example_env ''bolero'' ''bolero'' = 100"
    by (simp add: example_env_def fuzz_partial_ratio_def)
  have b: "vehicle_type BookingData_init = None"
    by (simp add: BookingData_init_def)
  have c: "vehicle_type (extract_booking_info example_env default_vehicle_keywords ''bolero''
      BookingData_init) = None"
    by (simp add: extract_booking_info_def Let_def low frames extract_vehicle_fuzzy_noop
        extract_vehicle_truck_type_def extract_vehicle_fallback_def bolero_truck bolero_feet b)
  show ?thesis
    by (simp only: extract_vehicle_fuzzy_noop a b c simp_thms)
qed


subsection \<open>Blank input\<close>

text \<open>
  C9. For an empty or whitespace-only input \<open>generate_response\<close> returns the fixed
  re-prompt and the agent (booking record, conversation history and all) is exactly as
  before the call.
\<close>

theorem C9_blank_input_reprompt:
  assumes "list_all is_space user_text"
  shows "generate_response e user_text agent = (reprompt, agent)"
  using strip_blank [OF assms] by (simp add: generate_response_def generate_response_io_def)


theorem C9_blank_input_reprompt_witness:
  "list_all is_space ''   '' \<and>
   generate_response example_env ''   '' (LLMAgent_init example_prompt (Some ''sk-test'') [] [])
     = (reprompt, LLMAgent_init example_prompt (Some ''sk-test'') [] [])"
proof -
  have a: "list_all is_space ''   ''"
    by (simp add: char_eval)
  show ?thesis
    by (intro conjI a C9_blank_input_reprompt [OF a])
qed


subsection \<open>The confirmation status never returns to pending\<close>

text \<open>
  C7. Over every sequence of processed utterances, a confirmation status other than
  \<open>pending\<close> never becomes \<open>pending\<close> again; and confirmation detection from
  \<open>pending\<close> gives \<open>confirmed\<close> for an utterance with confirmation keywords and no
  rejection keyword, and \<open>not_interested\<close> for one with rejection keywords and no
  confirmation keyword.
\<close>

theorem C7_confirmation_monotone:
  "(confirmation_status (booking_data agent) \<noteq> ''pending'' \<longrightarrow>
      confirmation_status (booking_data (run calls agent)) \<noteq> ''pending'') \<and>
   (confirmation_status bd = ''pending'' \<and> any_in confirmation_keywords (lower text) \<and>
      \<not> any_in rejection_keywords (lower text) \<longrightarrow>
      confirmation_status (detect_confirmation text bd) = ''confirmed'') \<and>
   (confirmation_status bd = ''pending'' \<and> any_in rejection_keywords (lower text) \<and>
      \<not> any_in confirmation_keywords (lower text) \<longrightarrow>
      confirmation_status (detect_confirmation text bd) = ''not_interested'')"
  by (simp add: run_not_pending detect_confirmation_def Let_def)

theorem C7_confirmation_monotone_witness:
  "confirmation_status (BookingData_init\<lparr>confirmation_status := ''confirmed''\<rparr>) \<noteq> ''pending'' \<and>
   confirmation_status (booking_data (run [(example_env, ''no, cancel it'')]
      ((LLMAgent_init example_prompt None [] [])
         \<lparr>booking_data := BookingData_init\<lparr>confirmation_status := ''confirmed''\<rparr>\<rparr>)))
     \<noteq> ''pending'' \<and>
   confirmation_status BookingData_init = ''pending'' \<and>
   any_in confirmation_keywords (lower ''yes that is correct'') \<and>
   \<not> any_in rejection_keywords (lower ''yes that is correct'') \<and>
   confirmation_status (detect_confirmation ''yes that is correct'' BookingData_init) = ''confirmed'' \<and>
   any_in rejection_keywords (lower ''cancel it'') \<and>
   \<not> any_in confirmation_keywords (lower ''cancel it'') \<and>
   confirmation_status (detect_confirmation ''cancel it'' BookingData_init) = ''not_interested''"
proof -
  let ?agent = "(LLMAgent_init example_prompt None [] [])
         \<lparr>booking_data := BookingData_init\<lparr>confirmation_status := ''confirmed''\<rparr>\<rparr>"
  have a: "confirmation_status (BookingData_init\<lparr>confirmation_status := ''confirmed''\<rparr>) \<noteq> ''pending''"
    by simp
  have a': "confirmation_status (booking_data ?agent) \<noteq> ''pending''"
    by simp
  have p: "confirmation_status BookingData_init = ''pending''"
    by (simp add: BookingData_init_def)
  have l1: "lower ''yes that is correct'' = ''yes that is correct''"
    by (simp add: text_eval char_eval)
  have l2: "lower ''cancel it'' = ''cancel it''"
    by (simp add: text_eval char_eval)
  have c1: "any_in confirmation_keywords (lower ''yes that is correct'')"
    unfolding l1 by (simp add: any_in_def confirmation_keywords_def)
  have c2: "\<not> any_in rejection_keywords (lower ''yes that is correct'')"
    unfolding l1 by (simp add: any_in_def rejection_keywords_def)
  have r1: "any_in rejection_keywords (lower ''cancel it'')"
    unfolding l2 by (simp add: any_in_def rejection_keywords_def)
  have r2: "\<not> any_in confirmation_keywords (lower ''cancel it'')"
    unfolding l2 by (simp add: any_in_def confirmation_keywords_def)
  note t = C7_confirmation_monotone [of ?agent "[(example_env, ''no, cancel it'')]" BookingData_init "''yes that is correct''"]
  note t1 = t [THEN conjunct1, rule_format, OF a']
  note t2 = t [THEN conjunct2, THEN conjunct1, rule_format, OF conjI [OF p conjI [OF c1 c2]]]
  note u = C7_confirmation_monotone [of ?agent "[]" BookingData_init "''cancel it''"]
  note t3 = u [THEN conjunct2, THEN conjunct2, rule_format, OF conjI [OF p conjI [OF r1 r2]]]
  show ?thesis
    by (intro conjI a t1 p c1 c2 t2 r1 r2 t3)
qed


subsection \<open>The conversation history and the message window\<close>

lemma generate_response_api_key: "api_key (snd (generate_response e t a)) = api_key a"
  by (simp add: generate_response_def generate_response_io_def Let_def with_user_message_def split: option.splits)

lemma run_api_key: "api_key (run calls a) = api_key a"
proof (induction calls arbitrary: a)
  case Nil
  then show ?case by simp
next
  case (Cons call calls)
  obtain e t where call: "call = (e, t)" by (cases call)
  show ?case unfolding call run.simps
    by (simp add: Cons.IH generate_response_api_key)
qed

lemma generate_response_history_echo:
  "\<not> truthy (api_key a) \<Longrightarrow>
   conversation_history (snd (generate_response e t a)) = conversation_history a"
  by (simp add: generate_response_def generate_response_io_def Let_def)

lemma run_history_echo:
  "\<not> truthy (api_key a) \<Longrightarrow> conversation_history (run calls a) = conversation_history a"
proof (induction calls arbitrary: a)
  case Nil
  then show ?case by simp
next
  case (Cons call calls)
  obtain e t where call: "call = (e, t)" by (cases call)
  have "\<not> truthy (api_key (snd (generate_response e t a)))"
    using Cons.prems by (simp add: generate_response_api_key)
  then show ?case unfolding call run.simps
    using Cons.IH Cons.prems by (simp add: generate_response_history_echo)
qed

lemma generate_response_history_grows:
  "\<exists>new. conversation_history (snd (generate_response e t a)) = conversation_history a @ new \<and>
         list_all (\<lambda>msg. role msg \<noteq> ''system'') new"
  by (simp add: generate_response_def generate_response_io_def Let_def with_user_message_def split: option.splits)

lemma run_history_grows:
  "\<exists>new. conversation_history (run calls a) = conversation_history a @ new \<and>
         list_all (\<lambda>msg. role msg \<noteq> ''system'') new"
proof (induction calls arbitrary: a)
  case Nil
  then show ?case by simp
next
  case (Cons call calls)
  obtain e t where call: "call = (e, t)" by (cases call)
  obtain n1 where n1: "conversation_history (snd (generate_response e t a)) =
      conversation_history a @ n1" "list_all (\<lambda>msg. role msg \<noteq> ''system'') n1"
    using generate_response_history_grows by blast
  obtain n2 where n2: "conversation_history (run calls (snd (generate_response e t a))) =
      conversation_history (snd (generate_response e t a)) @ n2"
      "list_all (\<lambda>msg. role msg \<noteq> ''system'') n2"
    using Cons.IH by blast
  have "conversation_history (run (call # calls) a) = conversation_history a @ (n1 @ n2)"
    unfolding call run.simps using n1 n2 by simp
  moreover have "list_all (\<lambda>msg. role msg \<noteq> ''system'') (n1 @ n2)"
    using n1 n2 by simp
  ultimately show ?case by blast
qed

lemma filter_none: "list_all (\<lambda>x. \<not> P x) xs \<Longrightarrow> filter P xs = []"
  by (induction xs) auto

lemma filter_all: "list_all P xs \<Longrightarrow> filter P xs = xs"
  by (induction xs) auto


lemma generate_response_io_requests:
  "fst (generate_response_io e t a) =
     (if t = [] \<or> strip t = [] \<or> \<not> truthy (api_key a) then []
      else [get_recent_messages 10 (with_user_message t a)])"
  by (simp add: generate_response_io_def Let_def with_user_message_def
      get_recent_messages_def split: option.splits)

lemma generate_response_history_exchange:
  assumes "truthy (api_key a)" and "\<not> (t = [] \<or> strip t = [])"
    and "call_openai e = (\<lambda>messages. Some r)"
  shows "conversation_history (snd (generate_response e t a)) =
     conversation_history a @
       [\<lparr>role = ''user'', content = t\<rparr>, \<lparr>role = ''assistant'', content = r\<rparr>]"
  using assms
  by (simp add: generate_response_def generate_response_io_def Let_def with_user_message_def)

lemma run_replicate_history:
  assumes "truthy (api_key a)" and "\<not> (t = [] \<or> strip t = [])"
    and "call_openai e = (\<lambda>messages. Some r)"
  shows "conversation_history (run (replicate n (e, t)) a) =
     conversation_history a @
       concat (replicate n
         [\<lparr>role = ''user'', content = t\<rparr>, \<lparr>role = ''assistant'', content = r\<rparr>])"
  using assms(1)
proof (induction n arbitrary: a)
  case 0
  then show ?case by simp
next
  case (Suc n)
  have key: "truthy (api_key (snd (generate_response e t a)))"
    using Suc.prems by (simp add: generate_response_api_key)
  show ?case
    by (simp add: Suc.IH [OF key]
        generate_response_history_exchange [OF Suc.prems assms(2) assms(3)])
qed

lemma strip_hello: "\<not> (''hello'' = [] \<or> strip ''hello'' = [])"
  by (simp add: text_eval char_eval)

lemma replicate_11: "replicate 11 x = [x, x, x, x, x, x, x, x, x, x, x]"
  by (simp add: eval_nat_numeral)

lemma hello_history:
  "conversation_history
     (run (replicate n (example_env, ''hello''))
        (LLMAgent_init example_prompt (Some ''sk-test'') [] [])) =
   \<lparr>role = ''system'', content = example_prompt\<rparr> # concat (replicate n hello_exchange)"
proof -
  have a: "truthy (api_key (LLMAgent_init example_prompt (Some ''sk-test'') [] []))"
    by (simp add: LLMAgent_init_def)
  have b: "call_openai example_env = (\<lambda>messages. Some ''Noted. Which city is the pickup?'')"
    by (simp add: example_env_def)
  show ?thesis
    unfolding run_replicate_history [OF a strip_hello b] hello_exchange_def
    by (simp add: LLMAgent_init_def)
qed

lemma concat_replicate_11:
  "concat (replicate 11 [x, y]) =
     [x, y, x, y, x, y, x, y, x, y, x, y, x, y, x, y, x, y, x, y, x, y]"
  by (simp add: replicate_11)

lemma hello_window:
  "fst (generate_response_io example_env ''hello''
     (run (replicate 11 (example_env, ''hello''))
        (LLMAgent_init example_prompt (Some ''sk-test'') [] []))) =
   [\<lparr>role = ''system'', content = example_prompt\<rparr> #
    drop 3 (concat (replicate 11 hello_exchange) @ [\<lparr>role = ''user'', content = ''hello''\<rparr>])]"
proof -
  have k: "truthy (api_key (run (replicate 11 (example_env, ''hello''))
        (LLMAgent_init example_prompt (Some ''sk-test'') [] [])))"
    by (simp add: run_api_key LLMAgent_init_def)
  show ?thesis
    unfolding generate_response_io_requests
    using k strip_hello
    by (simp add: get_recent_messages_def with_user_message_def Let_def last_n_def
        hello_history hello_exchange_def concat_replicate_11)
qed

text \<open>
  C8, as the claim states it, fails on the code in two ways. An agent built without an
  API key starts with an empty history and never appends to it, so its history holds
  no system turn. And the 20 non-system messages of a window are not 10 user/assistant
  turn-pairs: the window is cut after the new user message has been appended, so for an
  agent with an API key that has completed 11 exchanges the window of the next call
  starts, after the system turn, with an assistant message whose user message has been
  cut off, and ends with the user message that has no reply yet.
\<close>

theorem C8_window_counterexample:
  "filter (\<lambda>msg. role msg = ''system'')
     (conversation_history
        (run [(example_env, ''hello'')] (LLMAgent_init example_prompt None [] []))) = [] \<and>
   map (map role)
     (fst (generate_response_io example_env ''hello''
        (run (replicate 11 (example_env, ''hello''))
           (LLMAgent_init example_prompt (Some ''sk-test'') [] [])))) =
   [[''system'',
     ''assistant'', ''user'', ''assistant'', ''user'', ''assistant'', ''user'',
     ''assistant'', ''user'', ''assistant'', ''user'', ''assistant'', ''user'',
     ''assistant'', ''user'', ''assistant'', ''user'', ''assistant'', ''user'',
     ''assistant'', ''user'']]"
proof -
  have a: "conversation_history (run [(example_env, ''hello'')]
      (LLMAgent_init example_prompt None [] [])) = []"
    by (subst run_history_echo) (simp_all add: LLMAgent_init_def)
  show ?thesis
    unfolding a hello_window by (simp add: hello_exchange_def concat_replicate_11)
qed

text \<open>
  C8, amended. For an agent built with an API key, after every sequence of calls the
  history holds exactly one system turn, the one with the system prompt; a call of
  \<open>generate_response\<close> with a blank utterance hands nothing to the response generator,
  and a call with any other utterance hands it exactly one window: that system turn
  followed by the last 20 non-system messages (all of them when there are fewer), in
  order, of the history to which the new user message has been appended. For an agent
  built without an API key the history stays empty after every sequence of calls and a
  call hands no window to the response generator.
\<close>

theorem C8_history_window:
  "(truthy key \<longrightarrow>
      (let agent = run calls (LLMAgent_init system_prompt key truck_names body_names);
           system_turn = \<lparr>role = ''system'', content = system_prompt\<rparr>;
           others = filter (\<lambda>msg. role msg \<noteq> ''system'') (conversation_history agent) @
                      [\<lparr>role = ''user'', content = user_text\<rparr>]
       in filter (\<lambda>msg. role msg = ''system'') (conversation_history agent) = [system_turn] \<and>
          fst (generate_response_io e user_text agent) =
            (if user_text = [] \<or> strip user_text = [] then []
             else [system_turn # drop (length others - 20) others]))) \<and>
   (\<not> truthy key \<longrightarrow>
      (let agent = run calls (LLMAgent_init system_prompt key truck_names body_names)
       in conversation_history agent = [] \<and>
          fst (generate_response_io e user_text agent) = []))"
proof (intro conjI impI)
  assume key: "truthy key"
  let ?a0 = "LLMAgent_init system_prompt key truck_names body_names"
  let ?sys = "\<lparr>role = ''system'', content = system_prompt\<rparr>"
  have h0: "conversation_history ?a0 = [?sys]"
    using key by (simp add: LLMAgent_init_def)
  have k: "truthy (api_key (run calls ?a0))"
    using key by (simp add: run_api_key LLMAgent_init_def)
  obtain new where new: "conversation_history (run calls ?a0) = [?sys] @ new"
      "list_all (\<lambda>msg. role msg \<noteq> ''system'') new"
    using run_history_grows [of calls ?a0] h0 by auto
  have f1: "filter (\<lambda>msg. role msg = ''system'') new = []"
    using new(2) by (intro filter_none) simp
  have f2: "filter (\<lambda>msg. role msg \<noteq> ''system'') new = new"
    using new(2) by (rule filter_all)
  show "let agent = run calls ?a0;
           system_turn = ?sys;
           others = filter (\<lambda>msg. role msg \<noteq> ''system'') (conversation_history agent) @
                      [\<lparr>role = ''user'', content = user_text\<rparr>]
       in filter (\<lambda>msg. role msg = ''system'') (conversation_history agent) = [system_turn] \<and>
          fst (generate_response_io e user_text agent) =
            (if user_text = [] \<or> strip user_text = [] then []
             else [system_turn # drop (length others - 20) others])"
    unfolding generate_response_io_requests
    using k
    by (simp add: Let_def new(1) f1 f2 with_user_message_def get_recent_messages_def
        last_n_def)
next
  assume nokey: "\<not> truthy key"
  let ?a0 = "LLMAgent_init system_prompt key truck_names body_names"
  have k: "\<not> truthy (api_key (run calls ?a0))"
    using nokey by (simp add: run_api_key LLMAgent_init_def)
  have h: "conversation_history (run calls ?a0) = []"
    using nokey by (simp add: run_history_echo LLMAgent_init_def)
  show "let agent = run calls ?a0
       in conversation_history agent = [] \<and>
          fst (generate_response_io e user_text agent) = []"
    unfolding generate_response_io_requests Let_def
    using k h by simp
qed

theorem C8_history_window_witness:
  "truthy (Some ''sk-test'') \<and>
   length (filter (\<lambda>msg. role msg \<noteq> ''system'')
     (conversation_history
        (run (replicate 11 (example_env, ''hello''))
           (LLMAgent_init example_prompt (Some ''sk-test'') [] [])))) = 22 \<and>
   ''hello'' \<noteq> [] \<and> strip ''hello'' \<noteq> [] \<and>
   (let agent = run (replicate 11 (example_env, ''hello''))
                  (LLMAgent_init example_prompt (Some ''sk-test'') [] []);
        system_turn = \<lparr>role = ''system'', content = example_prompt\<rparr>;
        others = filter (\<lambda>msg. role msg \<noteq> ''system'') (conversation_history agent) @
                   [\<lparr>role = ''user'', content = ''hello''\<rparr>]
    in filter (\<lambda>msg. role msg = ''system'') (conversation_history agent) = [system_turn] \<and>
       fst (generate_response_io example_env ''hello'' agent) =
         (if ''hello'' = [] \<or> strip ''hello'' = [] then []
          else [system_turn # drop (length others - 20) others])) \<and>
   \<not> truthy None \<and>
   (let agent = run [(example_env, ''hello'')] (LLMAgent_init example_prompt None [] [])
    in conversation_history agent = [] \<and>
       fst (generate_response_io example_env ''hello'' agent) = [])"
proof -
  have a: "truthy (Some ''sk-test'')" by simp
  have b: "\<not> truthy None" by simp
  have c: "length (filter (\<lambda>msg. role msg \<noteq> ''system'')
     (conversation_history
        (run (replicate 11 (example_env, ''hello''))
           (LLMAgent_init example_prompt (Some ''sk-test'') [] [])))) = 22"
    unfolding hello_history by (simp add: hello_exchange_def concat_replicate_11)
  have d: "''hello'' \<noteq> []" by simp
  have e: "strip ''hello'' \<noteq> []" using strip_hello by simp
  note t1 = C8_history_window [of "Some ''sk-test''" "replicate 11 (example_env, ''hello'')"
      example_prompt "[]" "[]" "''hello''" example_env, THEN conjunct1, rule_format, OF a]
  note t2 = C8_history_window [of None "[(example_env, ''hello'')]" example_prompt
      "[]" "[]" "''hello''" example_env, THEN conjunct2, rule_format, OF b]
  show ?thesis
    by (intro conjI a b c d e t1 t2)
qed


subsection \<open>The confirmation echo of spec scenario 3\<close>

lemma low4: "lower echo_utterance = ''pickup in chennai, drop in bangalore, truck 32 feet multi-axle''"
  by (simp add: echo_utterance_def text_eval char_eval)

lemma echo_from_to: "re_search from_to_pattern ''pickup in chennai, drop in bangalore, truck 32 feet multi-axle'' = None"
  by (simp add: re_search_def from_to_pattern_def char_eval at_boundary_def)

lemma echo_confirmation: "re_search confirmation_pattern ''pickup in chennai, drop in bangalore, truck 32 feet multi-axle'' = Some [''chennai'', ''bangalore'']"
  by (simp add: re_search_def confirmation_pattern_def char_eval)

lemma echo_truck_type: "re_search truck_type_pattern ''pickup in chennai, drop in bangalore, truck 32 feet multi-axle'' = None"
  by (simp add: re_search_def truck_type_pattern_def char_eval)

lemma echo_feet: "re_search feet_pattern ''pickup in chennai, drop in bangalore, truck 32 feet multi-axle'' = Some [''32'']"
  by (simp add: re_search_def feet_pattern_def char_eval)

lemma echo_titles: "title (strip ''chennai'') = ''Chennai''" "title (strip ''bangalore'') = ''Bangalore''"
  by (simp_all add: text_eval char_eval)

lemma c4_from_to: "extract_from_to ''pickup in chennai, drop in bangalore, truck 32 feet multi-axle'' bd = bd"
  by (simp add: extract_from_to_def echo_from_to)

lemma c4_conf:
  "extract_confirmation_locations ''pickup in chennai, drop in bangalore, truck 32 feet multi-axle'' bd =
     bd\<lparr>pickup_location := Some ''Chennai'', drop_location := Some ''Bangalore''\<rparr>"
  by (simp add: extract_confirmation_locations_def echo_confirmation echo_titles cut_prefix_def text_eval char_eval)

lemma c4_truck: "extract_vehicle_truck_type rt kws ''pickup in chennai, drop in bangalore, truck 32 feet multi-axle'' bd = bd"
  by (simp add: extract_vehicle_truck_type_def echo_truck_type)

lemma c4_fallback:
  "extract_vehicle_fallback ''pickup in chennai, drop in bangalore, truck 32 feet multi-axle'' bd =
     (if truthy (vehicle_type bd) then bd else bd\<lparr>vehicle_type := Some ''32 Feet''\<rparr>)"
  by (simp add: extract_vehicle_fallback_def echo_feet)


text \<open>
  C4. The claim: the utterance "Pickup in Chennai, drop in Bangalore, truck 32 feet
  multi-axle" sets pickup and drop to "Chennai" and "Bangalore" and the vehicle type to
  "32 Feet Multi-Axle". On the code, for every record, scorer and keyword table, the two
  locations are set as claimed, but the vehicle type is not: the fuzzy stage never
  writes, the pattern of the truck-type stage cannot cross the hyphen of "multi-axle" and
  finds no match, and the feet fallback gives "32 Feet" to a record with no vehicle type
  (a record with a vehicle type keeps it).
\<close>

theorem C4_echo_utterance_result:
  "pickup_location (extract_booking_info e kws echo_utterance bd) = Some ''Chennai'' \<and>
   drop_location (extract_booking_info e kws echo_utterance bd) = Some ''Bangalore'' \<and>
   vehicle_type (extract_booking_info e kws echo_utterance bd)
     = (if truthy (vehicle_type bd) then vehicle_type bd else Some ''32 Feet'') \<and>
   vehicle_type (extract_booking_info e kws echo_utterance BookingData_init) \<noteq> Some ''32 Feet Multi-Axle''"
proof -
  have v: "vehicle_type (extract_booking_info e kws echo_utterance b)
     = (if truthy (vehicle_type b) then vehicle_type b else Some ''32 Feet'')" for b
    by (simp add: extract_booking_info_def Let_def low4 frames extract_vehicle_fuzzy_noop
        c4_from_to c4_conf c4_truck c4_fallback)
  have p: "pickup_location (extract_booking_info e kws echo_utterance bd) = Some ''Chennai''"
    by (simp add: extract_booking_info_def Let_def low4 frames extract_vehicle_fuzzy_noop
        c4_from_to c4_conf c4_truck c4_fallback)
  have d: "drop_location (extract_booking_info e kws echo_utterance bd) = Some ''Bangalore''"
    by (simp add: extract_booking_info_def Let_def low4 frames extract_vehicle_fuzzy_noop
        c4_from_to c4_conf c4_truck c4_fallback)
  have n: "vehicle_type (extract_booking_info e kws echo_utterance BookingData_init) \<noteq> Some ''32 Feet Multi-Axle''"
    unfolding v by (simp add: BookingData_init_def)
  show ?thesis
    using v [of bd] p d n by simp
qed

subsection \<open>Extractors on a field that is already filled\<close>

lemma truck_type_fold_inv:
  "snd (fold (\<lambda>(keyword, vehicle_name) (best_score, best_vehicle).
             (let score = rt tm keyword
              in if score > best_score \<and> score \<ge> 65
                 then (score, Some vehicle_name)
                 else (best_score, best_vehicle))) kws (s, v)) = v \<or>
   (\<exists>keyword name. (keyword, name) \<in> set kws \<and> 65 \<le> rt tm keyword \<and>
      snd (fold (\<lambda>(keyword, vehicle_name) (best_score, best_vehicle).
             (let score = rt tm keyword
              in if score > best_score \<and> score \<ge> 65
                 then (score, Some vehicle_name)
                 else (best_score, best_vehicle))) kws (s, v)) = Some name)"
proof (induction kws arbitrary: s v)
  case Nil
  then show ?case by simp
next
  case (Cons kv kws)
  obtain k n where kv: "kv = (k, n)" by (cases kv)
  show ?case
  proof (cases "rt tm k > s \<and> rt tm k \<ge> 65")
    case True
    then show ?thesis
      using Cons.IH [of "rt tm k" "Some n"] by (auto simp: kv Let_def)
  next
    case False
    then show ?thesis
      using Cons.IH [of s v] by (auto simp: kv Let_def)
  qed
qed

lemma truck_type_keywords_loop_cases:
  "snd (truck_type_keywords_loop rt tm kws) = None \<or>
   (\<exists>keyword name. (keyword, name) \<in> set kws \<and> 65 \<le> rt (lower tm) keyword \<and>
      snd (truck_type_keywords_loop rt tm kws) = Some name)"
  unfolding truck_type_keywords_loop_def
  by (rule truck_type_fold_inv [of rt "lower tm" kws 0 None])

lemma truck_type_stage_cases:
  "extract_vehicle_truck_type rt kws tlow bd = bd \<or>
   (\<exists>g rest keyword name.
      re_search truck_type_pattern tlow = Some (g # rest) \<and> (keyword, name) \<in> set kws \<and>
      65 \<le> rt (lower (strip g)) keyword \<and> name \<noteq> [] \<and>
      extract_vehicle_truck_type rt kws tlow bd = bd\<lparr>vehicle_type := Some name\<rparr>)"
proof (cases "re_search truck_type_pattern tlow")
  case None
  then show ?thesis by (simp add: extract_vehicle_truck_type_def)
next
  case (Some groups)
  show ?thesis
  proof (cases groups)
    case Nil
    with Some show ?thesis by (simp add: extract_vehicle_truck_type_def)
  next
    case (Cons g rest)
    obtain bs bv where loop: "truck_type_keywords_loop rt (strip g) kws = (bs, bv)"
      by (cases "truck_type_keywords_loop rt (strip g) kws")
    show ?thesis
    proof (cases "truthy bv")
      case False
      then show ?thesis
        using Some Cons loop by (simp add: extract_vehicle_truck_type_def Let_def)
    next
      case True
      then obtain name where name: "bv = Some name" "name \<noteq> []"
        by (cases bv) auto
      from truck_type_keywords_loop_cases [of rt "strip g" kws] loop name
      obtain keyword name' where kn: "(keyword, name') \<in> set kws"
          "65 \<le> rt (lower (strip g)) keyword" "bv = Some name'"
        by auto
      from kn(3) name(1) have "name' = name" by simp
      with kn have "(keyword, name) \<in> set kws" "65 \<le> rt (lower (strip g)) keyword"
        by simp_all
      moreover have "extract_vehicle_truck_type rt kws tlow bd = bd\<lparr>vehicle_type := Some name\<rparr>"
        using Some Cons loop name by (simp add: extract_vehicle_truck_type_def Let_def)
      ultimately show ?thesis
        using Some Cons name(2) by blast
    qed
  qed
qed

lemma fallback_filled: "truthy (vehicle_type bd) \<Longrightarrow> extract_vehicle_fallback tlow bd = bd"
  by (simp add: extract_vehicle_fallback_def)

lemma name_filled: "truthy (customer_name bd) \<Longrightarrow> extract_name tlow bd = bd"
  by (simp add: extract_name_def)

lemma phone_filled: "truthy (contact bd) \<Longrightarrow> extract_phone t bd = bd"
  by (simp add: extract_phone_def)

lemma body_filled: "truthy (body_type bd) \<Longrightarrow> extract_body_type db tlow bd = bd"
  by (cases "body_type bd") (simp_all add: extract_body_type_def)

lemma goods_filled: "truthy (goods_type bd) \<Longrightarrow> extract_goods tlow bd = bd"
  "truthy (goods_type bd) \<Longrightarrow> extract_conf_material tlow bd = bd"
  by (simp_all add: extract_goods_def extract_conf_material_def)

lemma trip_date_filled: "truthy (trip_date bd) \<Longrightarrow> extract_trip_date today tlow bd = bd"
  by (simp add: extract_trip_date_def)

lemmas filled = fallback_filled name_filled phone_filled body_filled goods_filled trip_date_filled

lemma info_name_filled:
  "truthy (customer_name bd) \<Longrightarrow>
   customer_name (extract_booking_info e kws text bd) = customer_name bd"
  by (simp add: extract_booking_info_def Let_def frames extract_vehicle_fuzzy_noop filled)

lemma info_contact_filled:
  "truthy (contact bd) \<Longrightarrow> contact (extract_booking_info e kws text bd) = contact bd"
  by (simp add: extract_booking_info_def Let_def frames extract_vehicle_fuzzy_noop filled)

lemma info_body_filled:
  "truthy (body_type bd) \<Longrightarrow> body_type (extract_booking_info e kws text bd) = body_type bd"
  by (simp add: extract_booking_info_def Let_def frames extract_vehicle_fuzzy_noop filled)

lemma info_goods_filled:
  "truthy (goods_type bd) \<Longrightarrow> goods_type (extract_booking_info e kws text bd) = goods_type bd"
  by (simp add: extract_booking_info_def Let_def frames extract_vehicle_fuzzy_noop filled)

lemma info_trip_date_filled:
  "truthy (trip_date bd) \<Longrightarrow> trip_date (extract_booking_info e kws text bd) = trip_date bd"
  by (simp add: extract_booking_info_def Let_def frames extract_vehicle_fuzzy_noop filled)

lemma bolero_loop:
  "truck_type_keywords_loop fuzz_ratio ''bolero'' default_vehicle_keywords = (100, Some ''Bolero'')"
  by (simp add: truck_type_keywords_loop_def default_vehicle_keywords_def fuzz_ratio_def
      indel_score_def intr_div_def lcs_length_def Let_def text_eval char_eval)

lemma info_vehicle_filled:
  assumes "truthy (vehicle_type bd)"
  shows "vehicle_type (extract_booking_info e kws text bd) = vehicle_type bd \<or>
     (\<exists>g rest keyword name.
        re_search truck_type_pattern (lower text) = Some (g # rest) \<and>
        (keyword, name) \<in> set kws \<and> 65 \<le> ratio e (lower (strip g)) keyword \<and>
        vehicle_type (extract_booking_info e kws text bd) = Some name)"
proof -
  define X where "X = extract_body_type (db_bodies e) (lower text)
     (extract_confirmation_locations (lower text) (extract_from_to (lower text)
        (extract_phone text (extract_name (lower text) bd))))"
  define Y where "Y = extract_vehicle_truck_type (ratio e) kws (lower text) X"
  have X: "vehicle_type X = vehicle_type bd"
    by (simp add: X_def frames)
  have out: "vehicle_type (extract_booking_info e kws text bd)
      = vehicle_type (extract_vehicle_fallback (lower text) Y)"
    by (simp add: extract_booking_info_def Let_def frames extract_vehicle_fuzzy_noop X_def Y_def)
  from truck_type_stage_cases [of "ratio e" kws "lower text" X]
  consider (same) "Y = X"
    | (set) g rest keyword name where "re_search truck_type_pattern (lower text) = Some (g # rest)"
        "(keyword, name) \<in> set kws" "65 \<le> ratio e (lower (strip g)) keyword" "name \<noteq> []"
        "Y = X\<lparr>vehicle_type := Some name\<rparr>"
    unfolding Y_def by blast
  then show ?thesis
  proof cases
    case same
    then have "truthy (vehicle_type Y)" using X assms by simp
    then have "vehicle_type (extract_vehicle_fallback (lower text) Y) = vehicle_type bd"
      using same X by (simp add: fallback_filled)
    then show ?thesis using out by simp
  next
    case set
    then have "truthy (vehicle_type Y)" by simp
    then have "vehicle_type (extract_vehicle_fallback (lower text) Y) = Some name"
      using set(5) by (simp add: fallback_filled)
    then show ?thesis using out set(1-3) by auto
  qed
qed

lemma from_to_pickup_cases:
  "pickup_location (extract_from_to tlow b) = pickup_location b \<or>
   (\<exists>g1 g2 rest. re_search from_to_pattern tlow = Some (g1 # g2 # rest) \<and>
      pickup_location (extract_from_to tlow b) = Some (title (strip g1)) \<and>
      (\<not> truthy (pickup_location b) \<or>
       length (title (strip g1)) > len_or_empty (pickup_location b)))"
  by (auto simp: extract_from_to_def Let_def split: option.splits list.splits)

lemma from_to_drop_cases:
  "drop_location (extract_from_to tlow b) = drop_location b \<or>
   (\<exists>g1 g2 rest. re_search from_to_pattern tlow = Some (g1 # g2 # rest) \<and>
      drop_location (extract_from_to tlow b) = Some (title (strip g2)) \<and>
      (\<not> truthy (drop_location b) \<or>
       length (title (strip g2)) > len_or_empty (drop_location b)))"
  by (auto simp: extract_from_to_def Let_def split: option.splits list.splits)

lemma conf_locations_none:
  "re_search confirmation_pattern tlow = None \<Longrightarrow> extract_confirmation_locations tlow b = b"
  by (simp add: extract_confirmation_locations_def)

lemma info_pickup_filled:
  assumes "truthy (pickup_location bd)" and "re_search confirmation_pattern (lower text) = None"
  shows "pickup_location (extract_booking_info e kws text bd) = pickup_location bd \<or>
     (\<exists>g1 g2 rest. re_search from_to_pattern (lower text) = Some (g1 # g2 # rest) \<and>
        pickup_location (extract_booking_info e kws text bd) = Some (title (strip g1)) \<and>
        length (title (strip g1)) > len_or_empty (pickup_location bd))"
proof -
  define X where "X = extract_phone text (extract_name (lower text) bd)"
  have X: "pickup_location X = pickup_location bd"
    by (simp add: X_def frames)
  have out: "pickup_location (extract_booking_info e kws text bd)
      = pickup_location (extract_from_to (lower text) X)"
    by (simp add: extract_booking_info_def Let_def frames extract_vehicle_fuzzy_noop X_def
        conf_locations_none [OF assms(2)])
  show ?thesis
    using from_to_pickup_cases [of "lower text" X] assms(1) unfolding out X by blast
qed

lemma info_drop_filled:
  assumes "truthy (drop_location bd)" and "re_search confirmation_pattern (lower text) = None"
  shows "drop_location (extract_booking_info e kws text bd) = drop_location bd \<or>
     (\<exists>g1 g2 rest. re_search from_to_pattern (lower text) = Some (g1 # g2 # rest) \<and>
        drop_location (extract_booking_info e kws text bd) = Some (title (strip g2)) \<and>
        length (title (strip g2)) > len_or_empty (drop_location bd))"
proof -
  define X where "X = extract_phone text (extract_name (lower text) bd)"
  have X: "drop_location X = drop_location bd"
    by (simp add: X_def frames)
  have out: "drop_location (extract_booking_info e kws text bd)
      = drop_location (extract_from_to (lower text) X)"
    by (simp add: extract_booking_info_def Let_def frames extract_vehicle_fuzzy_noop X_def
        conf_locations_none [OF assms(2)])
  show ?thesis
    using from_to_drop_cases [of "lower text" X] assms(1) unfolding out X by blast
qed

lemma conf_name_filled: "truthy (customer_name bd) \<Longrightarrow> extract_conf_name tlow bd = bd"
  by (simp add: extract_conf_name_def)

lemma conf_phone_filled: "truthy (contact bd) \<Longrightarrow> extract_conf_phone tlow bd = bd"
  by (simp add: extract_conf_phone_def)


lemma truck_type_bolero:
  "re_search truck_type_pattern ''truck type bolero'' = Some [''bolero'']"
  by (simp add: re_search_def truck_type_pattern_def char_eval)


text \<open>
  C5. The claim: an extractor whose target field is filled leaves it unchanged, with the
  two location overwrites as the only exceptions; in particular the vehicle-type
  extractor. On the code the truck-type stage has no guard: the utterance
  "truck type bolero" against a record whose vehicle type is "Truck" changes it to
  "Bolero".
\<close>

theorem C5_truck_type_overwrites_counterexample:
  "truthy (vehicle_type example_filled) \<and>
   vehicle_type example_filled = Some ''Truck'' \<and>
   vehicle_type (extract_vehicle_truck_type fuzz_ratio default_vehicle_keywords
      (lower ''truck type bolero'') example_filled) = Some ''Bolero'' \<and>
   vehicle_type (extract_booking_info example_env default_vehicle_keywords
      ''truck type bolero'' example_filled) = Some ''Bolero''"
proof -
  have low: "lower ''truck type bolero'' = ''truck type bolero''"
    by (simp add: text_eval char_eval)
  have st: "strip ''bolero'' = ''bolero''"
    by (simp add: text_eval char_eval)
  have a: "vehicle_type example_filled = Some ''Truck''"
    by (simp add: example_filled_def)
  have stage: "extract_vehicle_truck_type fuzz_ratio default_vehicle_keywords
      ''truck type bolero'' b = b\<lparr>vehicle_type := Some ''Bolero''\<rparr>" for b
    by (simp add: extract_vehicle_truck_type_def truck_type_bolero st bolero_loop)
  have r: "ratio example_env = fuzz_ratio"
    by (simp add: example_env_def)
  have c: "vehicle_type (extract_booking_info example_env default_vehicle_keywords
      ''truck type bolero'' example_filled) = Some ''Bolero''"
    by (simp add: extract_booking_info_def Let_def low r frames extract_vehicle_fuzzy_noop
        stage fallback_filled)
  show ?thesis
    unfolding low by (simp add: a stage c)
qed


text \<open>
  C5, amended. With a filled target field the name, phone, body-type, goods and
  trip-date extractors leave it unchanged, and so do the fuzzy stage and the feet
  fallback of the vehicle extractor. There are three exceptions. The truck-type stage
  overwrites \<open>vehicle_type\<close> with the canonical name of a keyword that scores at
  least 65 against the phrase captured after "truck [type]". The confirmation-echo
  location form overwrites the two locations. Without an echo match, the from/to form
  overwrites a location only with a capture that is strictly longer than the stored
  value.
\<close>

theorem C5_filled_fields:
  "(truthy (customer_name bd) \<longrightarrow>
      customer_name (extract_booking_info e kws text bd) = customer_name bd \<and>
      customer_name (extract_from_confirmation text bd) = customer_name bd) \<and>
   (truthy (contact bd) \<longrightarrow>
      contact (extract_booking_info e kws text bd) = contact bd \<and>
      contact (extract_from_confirmation text bd) = contact bd) \<and>
   (truthy (body_type bd) \<longrightarrow>
      body_type (extract_booking_info e kws text bd) = body_type bd) \<and>
   (truthy (goods_type bd) \<longrightarrow>
      goods_type (extract_booking_info e kws text bd) = goods_type bd) \<and>
   (truthy (trip_date bd) \<longrightarrow>
      trip_date (extract_booking_info e kws text bd) = trip_date bd) \<and>
   (truthy (vehicle_type bd) \<longrightarrow>
      extract_vehicle_fuzzy (partial_ratio e) kws (lower text) bd = bd \<and>
      extract_vehicle_fallback (lower text) bd = bd \<and>
      (vehicle_type (extract_booking_info e kws text bd) = vehicle_type bd \<or>
       (\<exists>g rest keyword name.
          re_search truck_type_pattern (lower text) = Some (g # rest) \<and>
          (keyword, name) \<in> set kws \<and> 65 \<le> ratio e (lower (strip g)) keyword \<and>
          vehicle_type (extract_booking_info e kws text bd) = Some name))) \<and>
   (truthy (pickup_location bd) \<and> re_search confirmation_pattern (lower text) = None \<longrightarrow>
      pickup_location (extract_booking_info e kws text bd) = pickup_location bd \<or>
      (\<exists>g1 g2 rest. re_search from_to_pattern (lower text) = Some (g1 # g2 # rest) \<and>
         pickup_location (extract_booking_info e kws text bd) = Some (title (strip g1)) \<and>
         length (title (strip g1)) > len_or_empty (pickup_location bd))) \<and>
   (truthy (drop_location bd) \<and> re_search confirmation_pattern (lower text) = None \<longrightarrow>
      drop_location (extract_booking_info e kws text bd) = drop_location bd \<or>
      (\<exists>g1 g2 rest. re_search from_to_pattern (lower text) = Some (g1 # g2 # rest) \<and>
         drop_location (extract_booking_info e kws text bd) = Some (title (strip g2)) \<and>
         length (title (strip g2)) > len_or_empty (drop_location bd)))"
proof (intro conjI impI)
  assume "truthy (customer_name bd)"
  then show "customer_name (extract_booking_info e kws text bd) = customer_name bd"
    by (rule info_name_filled)
next
  assume "truthy (customer_name bd)"
  then show "customer_name (extract_from_confirmation text bd) = customer_name bd"
    by (simp add: extract_from_confirmation_def Let_def frames conf_name_filled)
next
  assume "truthy (contact bd)"
  then show "contact (extract_booking_info e kws text bd) = contact bd"
    by (rule info_contact_filled)
next
  assume "truthy (contact bd)"
  then show "contact (extract_from_confirmation text bd) = contact bd"
    by (simp add: extract_from_confirmation_def Let_def frames conf_phone_filled)
next
  assume "truthy (body_type bd)"
  then show "body_type (extract_booking_info e kws text bd) = body_type bd"
    by (rule info_body_filled)
next
  assume "truthy (goods_type bd)"
  then show "goods_type (extract_booking_info e kws text bd) = goods_type bd"
    by (rule info_goods_filled)
next
  assume "truthy (trip_date bd)"
  then show "trip_date (extract_booking_info e kws text bd) = trip_date bd"
    by (rule info_trip_date_filled)
next
  show "extract_vehicle_fuzzy (partial_ratio e) kws (lower text) bd = bd"
    by (rule extract_vehicle_fuzzy_noop)
next
  assume "truthy (vehicle_type bd)"
  then show "extract_vehicle_fallback (lower text) bd = bd"
    by (rule fallback_filled)
next
  assume "truthy (vehicle_type bd)"
  then show "vehicle_type (extract_booking_info e kws text bd) = vehicle_type bd \<or>
       (\<exists>g rest keyword name.
          re_search truck_type_pattern (lower text) = Some (g # rest) \<and>
          (keyword, name) \<in> set kws \<and> 65 \<le> ratio e (lower (strip g)) keyword \<and>
          vehicle_type (extract_booking_info e kws text bd) = Some name)"
    by (rule info_vehicle_filled)
next
  assume "truthy (pickup_location bd) \<and> re_search confirmation_pattern (lower text) = None"
  then show "pickup_location (extract_booking_info e kws text bd) = pickup_location bd \<or>
      (\<exists>g1 g2 rest. re_search from_to_pattern (lower text) = Some (g1 # g2 # rest) \<and>
         pickup_location (extract_booking_info e kws text bd) = Some (title (strip g1)) \<and>
         length (title (strip g1)) > len_or_empty (pickup_location bd))"
    using info_pickup_filled by blast
next
  assume "truthy (drop_location bd) \<and> re_search confirmation_pattern (lower text) = None"
  then show "drop_location (extract_booking_info e kws text bd) = drop_location bd \<or>
      (\<exists>g1 g2 rest. re_search from_to_pattern (lower text) = Some (g1 # g2 # rest) \<and>
         drop_location (extract_booking_info e kws text bd) = Some (title (strip g2)) \<and>
         length (title (strip g2)) > len_or_empty (drop_location bd))"
    using info_drop_filled by blast
qed

lemma kumar_conf: "re_search confirmation_pattern (lower ''I am Kumar, carrying rice tomorrow'') = None"
  by (simp add: re_search_def confirmation_pattern_def text_eval char_eval)


theorem C5_filled_fields_witness:
  "truthy (customer_name example_filled) \<and> truthy (contact example_filled) \<and>
   truthy (body_type example_filled) \<and> truthy (goods_type example_filled) \<and>
   truthy (trip_date example_filled) \<and> truthy (vehicle_type example_filled) \<and>
   truthy (pickup_location example_filled) \<and> truthy (drop_location example_filled) \<and>
   re_search confirmation_pattern (lower ''I am Kumar, carrying rice tomorrow'') = None \<and>
   customer_name (extract_booking_info example_env default_vehicle_keywords
      ''I am Kumar, carrying rice tomorrow'' example_filled) = customer_name example_filled \<and>
   customer_name (extract_from_confirmation ''I am Kumar, carrying rice tomorrow'' example_filled)
      = customer_name example_filled \<and>
   contact (extract_booking_info example_env default_vehicle_keywords
      ''I am Kumar, carrying rice tomorrow'' example_filled) = contact example_filled \<and>
   contact (extract_from_confirmation ''I am Kumar, carrying rice tomorrow'' example_filled)
      = contact example_filled \<and>
   body_type (extract_booking_info example_env default_vehicle_keywords
      ''I am Kumar, carrying rice tomorrow'' example_filled) = body_type example_filled \<and>
   goods_type (extract_booking_info example_env default_vehicle_keywords
      ''I am Kumar, carrying rice tomorrow'' example_filled) = goods_type example_filled \<and>
   trip_date (extract_booking_info example_env default_vehicle_keywords
      ''I am Kumar, carrying rice tomorrow'' example_filled) = trip_date example_filled \<and>
   extract_vehicle_fuzzy (partial_ratio example_env) default_vehicle_keywords
      (lower ''I am Kumar, carrying rice tomorrow'') example_filled = example_filled \<and>
   extract_vehicle_fallback (lower ''I am Kumar, carrying rice tomorrow'') example_filled
      = example_filled \<and>
   (vehicle_type (extract_booking_info example_env default_vehicle_keywords
        ''I am Kumar, carrying rice tomorrow'' example_filled) = vehicle_type example_filled \<or>
    (\<exists>g rest keyword name.
        re_search truck_type_pattern (lower ''I am Kumar, carrying rice tomorrow'')
          = Some (g # rest) \<and>
        (keyword, name) \<in> set default_vehicle_keywords \<and>
        65 \<le> ratio example_env (lower (strip g)) keyword \<and>
        vehicle_type (extract_booking_info example_env default_vehicle_keywords
          ''I am Kumar, carrying rice tomorrow'' example_filled) = Some name)) \<and>
   (pickup_location (extract_booking_info example_env default_vehicle_keywords
        ''I am Kumar, carrying rice tomorrow'' example_filled) = pickup_location example_filled \<or>
    (\<exists>g1 g2 rest.
        re_search from_to_pattern (lower ''I am Kumar, carrying rice tomorrow'')
          = Some (g1 # g2 # rest) \<and>
        pickup_location (extract_booking_info example_env default_vehicle_keywords
          ''I am Kumar, carrying rice tomorrow'' example_filled) = Some (title (strip g1)) \<and>
        length (title (strip g1)) > len_or_empty (pickup_location example_filled))) \<and>
   (drop_location (extract_booking_info example_env default_vehicle_keywords
        ''I am Kumar, carrying rice tomorrow'' example_filled) = drop_location example_filled \<or>
    (\<exists>g1 g2 rest.
        re_search from_to_pattern (lower ''I am Kumar, carrying rice tomorrow'')
          = Some (g1 # g2 # rest) \<and>
        drop_location (extract_booking_info example_env default_vehicle_keywords
          ''I am Kumar, carrying rice tomorrow'' example_filled) = Some (title (strip g2)) \<and>
        length (title (strip g2)) > len_or_empty (drop_location example_filled)))"
proof -
  let ?t = "''I am Kumar, carrying rice tomorrow''"
  have h: "truthy (customer_name example_filled)" "truthy (contact example_filled)"
    "truthy (body_type example_filled)" "truthy (goods_type example_filled)"
    "truthy (trip_date example_filled)" "truthy (vehicle_type example_filled)"
    "truthy (pickup_location example_filled)" "truthy (drop_location example_filled)"
    by (simp_all add: example_filled_def)
  note t = C5_filled_fields [of example_filled example_env default_vehicle_keywords ?t]
  note c1 = t [THEN conjunct1, rule_format, OF h(1)]
  note c2 = t [THEN conjunct2, THEN conjunct1, rule_format, OF h(2)]
  note c3 = t [THEN conjunct2, THEN conjunct2, THEN conjunct1, rule_format, OF h(3)]
  note c4 = t [THEN conjunct2, THEN conjunct2, THEN conjunct2, THEN conjunct1, rule_format, OF h(4)]
  note c5 = t [THEN conjunct2, THEN conjunct2, THEN conjunct2, THEN conjunct2, THEN conjunct1,
      rule_format, OF h(5)]
  note c6 = t [THEN conjunct2, THEN conjunct2, THEN conjunct2, THEN conjunct2, THEN conjunct2,
      THEN conjunct1, rule_format, OF h(6)]
  note c7 = t [THEN conjunct2, THEN conjunct2, THEN conjunct2, THEN conjunct2, THEN conjunct2,
      THEN conjunct2, THEN conjunct1, rule_format, OF conjI [OF h(7) kumar_conf]]
  note c8 = t [THEN conjunct2, THEN conjunct2, THEN conjunct2, THEN conjunct2, THEN conjunct2,
      THEN conjunct2, THEN conjunct2, rule_format, OF conjI [OF h(8) kumar_conf]]
  show ?thesis
    by (intro conjI h kumar_conf c1 [THEN conjunct1] c1 [THEN conjunct2] c2 [THEN conjunct1]
        c2 [THEN conjunct2] c3 c4 c5 c6 [THEN conjunct1] c6 [THEN conjunct2, THEN conjunct1]
        c6 [THEN conjunct2, THEN conjunct2] c7 c8)
qed

end
